theory Spec2Isabelle
  imports Complex_Main "HOL-Library.Sublist"
begin

section \<open>JavaScript values used by the image pipeline\<close>

text \<open>
  Strings are lists of code units. Isabelle's \<open>char\<close> covers the code units 0 to 255,
  which is the range the embedding represents; \<open>length\<close> is the \<open>.length\<close> of the
  source. A thrown value is either an \<open>Error\<close> instance, of which only the message is
  ever read (\<open>error instanceof Error ? error.message : 'Unknown error'\<close>), or some other
  value.
\<close>

datatype js_error = JsError string | NonError

definition error_message :: "js_error \<Rightarrow> string" where
  "error_message e = (case e of JsError m \<Rightarrow> m | NonError \<Rightarrow> ''Unknown error'')"

text \<open>\<open>s.startsWith(p)\<close> is \<^const>\<open>prefix\<close> \<open>p s\<close>.\<close>

text \<open>\<open>s.split(c)\<close> for a separator of one code unit: never the empty list.\<close>

fun split_char :: "char \<Rightarrow> string \<Rightarrow> string list" where
  "split_char c [] = [[]]"
| "split_char c (x # xs) =
     (if x = c then [] # split_char c xs
      else (case split_char c xs of
              [] \<Rightarrow> [[x]]
            | w # ws \<Rightarrow> (x # w) # ws))"

section \<open>imageStorage.ts: getFileUrl\<close>

text \<open>\<open>filePath.replace(/\\/g, '/')\<close>: every backslash (code unit 0x5C) becomes a slash.\<close>

definition replace_backslashes :: "string \<Rightarrow> string" where
  "replace_backslashes s = map (\<lambda>c. if c = CHR 0x5C then CHR ''/'' else c) s"

definition hex_digit :: "nat \<Rightarrow> char" where
  "hex_digit k = (if k < 10 then char_of (48 + k) else char_of (55 + k))"

definition percent_byte :: "nat \<Rightarrow> string" where
  "percent_byte b = [CHR ''%'', hex_digit (b div 16), hex_digit (b mod 16)]"

definition uri_unreserved :: "char \<Rightarrow> bool" where
  "uri_unreserved c \<longleftrightarrow>
     c \<in> set ''ABCDEFGHIJKLMNOPQRSTUVWXYZabcdefghijklmnopqrstuvwxyz0123456789-_.!~*()''
     \<or> c = CHR 0x27"

definition encode_unit :: "char \<Rightarrow> string" where
  "encode_unit c =
     (let n = (of_char c :: nat) in
      if uri_unreserved c then [c]
      else if n < 128 then percent_byte n
      else percent_byte (192 + n div 64) @ percent_byte (128 + n mod 64))"

text \<open>
  \<open>encodeURIComponent\<close> on code units 0 to 255: the unreserved characters stay, every
  other one is written as the percent-escaped bytes of its UTF-8 form. In this range it
  never throws; the source's \<open>URIError\<close> (a lone surrogate) lies outside \<open>char\<close>, so
  \<open>getFileUrl_with\<close> below takes the encoder as an argument and keeps the \<open>catch\<close>
  branch of the source.
\<close>

definition encodeURIComponent :: "string \<Rightarrow> js_error + string" where
  "encodeURIComponent s = Inr (concat (map encode_unit s))"

text \<open>
  The \<open>forEach\<close> over \<open>pathWithPrefix.split('/')\<close>: \<open>n\<close> is the number of segments,
  \<open>index\<close> the position of the head of the list, \<open>encodedPath\<close> the accumulator.
\<close>

fun encode_segments ::
  "(string \<Rightarrow> js_error + string) \<Rightarrow> nat \<Rightarrow> nat \<Rightarrow> string list \<Rightarrow> string \<Rightarrow> js_error + string"
where
  "encode_segments enc n index [] encodedPath = Inr encodedPath"
| "encode_segments enc n index (segment # rest) encodedPath =
     (if index = 0 \<and> segment = [] then
        encode_segments enc n (Suc index) rest (encodedPath @ ''/'')
      else
        (case enc segment of
           Inl e \<Rightarrow> Inl e
         | Inr s \<Rightarrow>
             encode_segments enc n (Suc index) rest
               (encodedPath @ s @ (if index < n - 1 then ''/'' else ''''))))"

definition getFileUrl_with :: "(string \<Rightarrow> js_error + string) \<Rightarrow> string \<Rightarrow> string" where
  "getFileUrl_with enc filePath =
     (if prefix ''http://'' filePath \<or> prefix ''https://'' filePath \<or> prefix ''file://'' filePath
      then filePath
      else
        (let normalizedPath = replace_backslashes filePath;
             pathWithPrefix =
               (if prefix ''/'' normalizedPath then normalizedPath else ''/'' @ normalizedPath);
             segments = split_char (CHR ''/'') pathWithPrefix
         in case encode_segments enc (length segments) 0 segments [] of
              Inr encodedPath \<Rightarrow> ''file://'' @ encodedPath
            | Inl e \<Rightarrow> ''file:///'' @ replace_backslashes filePath))"

definition getFileUrl :: "string \<Rightarrow> string" where
  "getFileUrl = getFileUrl_with encodeURIComponent"

section \<open>Numbers\<close>

text \<open>
  A JavaScript number is modelled as an exact real, or one of the three values that
  the arithmetic of the source can produce from a missing coordinate or a zero
  dimension: the two infinities and NaN. Rounding errors of the binary representation
  and the sign of zero are not represented.
\<close>

datatype num = Fin real | PosInf | NegInf | NaN

definition num_neg :: "num \<Rightarrow> num" where
  "num_neg a = (case a of Fin x \<Rightarrow> Fin (- x) | PosInf \<Rightarrow> NegInf | NegInf \<Rightarrow> PosInf | NaN \<Rightarrow> NaN)"

fun num_add :: "num \<Rightarrow> num \<Rightarrow> num" where
  "num_add (Fin x) (Fin y) = Fin (x + y)"
| "num_add NaN _ = NaN"
| "num_add _ NaN = NaN"
| "num_add PosInf NegInf = NaN"
| "num_add NegInf PosInf = NaN"
| "num_add PosInf _ = PosInf"
| "num_add NegInf _ = NegInf"
| "num_add _ PosInf = PosInf"
| "num_add _ NegInf = NegInf"

definition num_sub :: "num \<Rightarrow> num \<Rightarrow> num" where
  "num_sub a b = num_add a (num_neg b)"

text \<open>The sign of a value other than NaN: \<open>True\<close> for negative.\<close>

fun num_negative :: "num \<Rightarrow> bool" where
  "num_negative (Fin x) = (x < 0)"
| "num_negative NegInf = True"
| "num_negative _ = False"

fun num_mul :: "num \<Rightarrow> num \<Rightarrow> num" where
  "num_mul (Fin x) (Fin y) = Fin (x * y)"
| "num_mul NaN _ = NaN"
| "num_mul _ NaN = NaN"
| "num_mul a b =
     (if a = Fin 0 \<or> b = Fin 0 then NaN
      else if num_negative a = num_negative b then PosInf else NegInf)"

fun num_div :: "num \<Rightarrow> num \<Rightarrow> num" where
  "num_div NaN _ = NaN"
| "num_div _ NaN = NaN"
| "num_div (Fin x) (Fin y) =
     (if y \<noteq> 0 then Fin (x / y)
      else if x = 0 then NaN
      else if x < 0 then NegInf else PosInf)"
| "num_div (Fin x) _ = Fin 0"
| "num_div a (Fin y) = (if num_negative a = (y < 0) then PosInf else NegInf)"
| "num_div _ _ = NaN"

text \<open>\<open>a <= b\<close> and \<open>a >= b\<close>: false as soon as one side is NaN.\<close>

fun num_le :: "num \<Rightarrow> num \<Rightarrow> bool" where
  "num_le NaN _ = False"
| "num_le _ NaN = False"
| "num_le (Fin x) (Fin y) = (x \<le> y)"
| "num_le NegInf _ = True"
| "num_le _ PosInf = True"
| "num_le _ _ = False"

definition num_ge :: "num \<Rightarrow> num \<Rightarrow> bool" where
  "num_ge a b = num_le b a"

definition Math_min :: "num \<Rightarrow> num \<Rightarrow> num" where
  "Math_min a b = (if a = NaN \<or> b = NaN then NaN else if num_le a b then a else b)"

definition Math_max :: "num \<Rightarrow> num \<Rightarrow> num" where
  "Math_max a b = (if a = NaN \<or> b = NaN then NaN else if num_le a b then b else a)"

text \<open>\<open>Math.round\<close> rounds to the nearest integer, a half towards plus infinity.\<close>

definition Math_round :: "num \<Rightarrow> num" where
  "Math_round a = (case a of Fin x \<Rightarrow> Fin (of_int \<lfloor>x + 1 / 2\<rfloor>) | _ \<Rightarrow> a)"

definition digit_char :: "nat \<Rightarrow> char" where
  "digit_char d = (if d < 10 then ''0123456789'' ! d else CHR ''?'')"

fun show_nat :: "nat \<Rightarrow> string" where
  "show_nat n = (if n < 10 then [digit_char n] else show_nat (n div 10) @ [digit_char (n mod 10)])"

declare show_nat.simps [simp del]

definition show_int :: "int \<Rightarrow> string" where
  "show_int i = (if i < 0 then ''-'' @ show_nat (nat (- i)) else show_nat (nat i))"

text \<open>
  The text of a number inside a template literal. It is only applied to the results of
  \<open>Math.round\<close>; for a finite value the integer part is printed in decimal, which is
  what the source prints for integers below \<open>10^21\<close> in absolute value.
\<close>

definition num_to_string :: "num \<Rightarrow> string" where
  "num_to_string a =
     (case a of Fin x \<Rightarrow> show_int \<lfloor>x\<rfloor> | PosInf \<Rightarrow> ''Infinity'' | NegInf \<Rightarrow> ''-Infinity''
      | NaN \<Rightarrow> ''NaN'')"

text \<open>
  \<open>coordinates[i]\<close>: past the end it is \<open>undefined\<close>, which every arithmetic operation
  and \<open>Math.min\<close>/\<open>Math.max\<close> of the source turn into NaN.
\<close>

definition coord_at :: "num list \<Rightarrow> nat \<Rightarrow> num" where
  "coord_at cs i = (if i < length cs then cs ! i else NaN)"

section \<open>spatialProcessing.ts\<close>

record region =
  x1 :: num
  y1 :: num
  x2 :: num
  y2 :: num

datatype annotation_type = Rectangle | Freehand | Shape

record annotation =
  ann_id :: string
  ann_type :: annotation_type
  coordinates :: "num list"
  feedback :: string
  normalizedCoordinates :: "region option"
  spatialReference :: "string option"

text \<open>The 3x3 grid, in the order in which \<open>Object.entries\<close> enumerates it.\<close>

definition GRID_SECTIONS :: "(string \<times> region) list" where
  "GRID_SECTIONS =
    [(''top-left'',      \<lparr>x1 = Fin 0, y1 = Fin 0, x2 = Fin (33/100), y2 = Fin (33/100)\<rparr>),
     (''top-center'',    \<lparr>x1 = Fin (33/100), y1 = Fin 0, x2 = Fin (66/100), y2 = Fin (33/100)\<rparr>),
     (''top-right'',     \<lparr>x1 = Fin (66/100), y1 = Fin 0, x2 = Fin 1, y2 = Fin (33/100)\<rparr>),
     (''middle-left'',   \<lparr>x1 = Fin 0, y1 = Fin (33/100), x2 = Fin (33/100), y2 = Fin (66/100)\<rparr>),
     (''center'',        \<lparr>x1 = Fin (33/100), y1 = Fin (33/100), x2 = Fin (66/100), y2 = Fin (66/100)\<rparr>),
     (''middle-right'',  \<lparr>x1 = Fin (66/100), y1 = Fin (33/100), x2 = Fin 1, y2 = Fin (66/100)\<rparr>),
     (''bottom-left'',   \<lparr>x1 = Fin 0, y1 = Fin (66/100), x2 = Fin (33/100), y2 = Fin 1\<rparr>),
     (''bottom-center'', \<lparr>x1 = Fin (33/100), y1 = Fin (66/100), x2 = Fin (66/100), y2 = Fin 1\<rparr>),
     (''bottom-right'',  \<lparr>x1 = Fin (66/100), y1 = Fin (66/100), x2 = Fin 1, y2 = Fin 1\<rparr>)]"

text \<open>
  \<open>getPercentagePosition\<close> rounds \<open>value * 100\<close>, a product of doubles, to an integer.
  This is the one place where the rounding of the binary representation decides a
  result: the double nearest to 0.285, times 100, is 28.499999999999996, which
  \<open>Math.round\<close> takes to 28, where the exact product gives 29. The product of a finite
  value with 100 is therefore a parameter \<open>times100\<close> of everything that prints a
  percentage, and nothing is assumed about it; for the two infinities and NaN the
  product is the value itself.
\<close>

definition getPercentagePosition :: "(real \<Rightarrow> real) \<Rightarrow> num \<Rightarrow> string" where
  "getPercentagePosition times100 v =
     num_to_string
       (Math_round (case v of Fin r \<Rightarrow> Fin (times100 r) | _ \<Rightarrow> num_mul v (Fin 100)))
     @ ''%''"

definition normalizeRectangleCoordinates :: "num list \<Rightarrow> num \<Rightarrow> num \<Rightarrow> region" where
  "normalizeRectangleCoordinates coords imageWidth imageHeight =
     (let x = coord_at coords 0; y = coord_at coords 1;
          width = coord_at coords 2; height = coord_at coords 3
      in \<lparr>x1 = num_div x imageWidth,
          y1 = num_div y imageHeight,
          x2 = num_div (num_add x width) imageWidth,
          y2 = num_div (num_add y height) imageHeight\<rparr>)"

text \<open>
  The loop of \<open>normalizeFreehandCoordinates\<close>: \<open>i\<close> steps by two through the
  coordinates, the list argument is what remains from index \<open>i\<close> on. A last \<open>x\<close>
  without its \<open>y\<close> reads \<open>undefined\<close>.
\<close>

fun freehand_bounds :: "num list \<Rightarrow> num \<times> num \<times> num \<times> num \<Rightarrow> num \<times> num \<times> num \<times> num" where
  "freehand_bounds [] acc = acc"
| "freehand_bounds [x] (minX, minY, maxX, maxY) =
     (Math_min minX x, Math_min minY NaN, Math_max maxX x, Math_max maxY NaN)"
| "freehand_bounds (x # y # rest) (minX, minY, maxX, maxY) =
     freehand_bounds rest (Math_min minX x, Math_min minY y, Math_max maxX x, Math_max maxY y)"

definition normalizeFreehandCoordinates :: "num list \<Rightarrow> num \<Rightarrow> num \<Rightarrow> region" where
  "normalizeFreehandCoordinates coords imageWidth imageHeight =
     (case freehand_bounds coords (PosInf, PosInf, NegInf, NegInf) of
        (minX, minY, maxX, maxY) \<Rightarrow>
          \<lparr>x1 = num_div minX imageWidth,
           y1 = num_div minY imageHeight,
           x2 = num_div maxX imageWidth,
           y2 = num_div maxY imageHeight\<rparr>)"

definition in_section :: "region \<Rightarrow> num \<Rightarrow> num \<Rightarrow> bool" where
  "in_section section centerX centerY \<longleftrightarrow>
     num_ge centerX (x1 section) \<and> num_le centerX (x2 section)
     \<and> num_ge centerY (y1 section) \<and> num_le centerY (y2 section)"

fun find_section :: "(string \<times> region) list \<Rightarrow> num \<Rightarrow> num \<Rightarrow> string" where
  "find_section [] centerX centerY = ''center''"
| "find_section ((sectionName, section) # rest) centerX centerY =
     (if in_section section centerX centerY then sectionName
      else find_section rest centerX centerY)"

definition centroid_x :: "region \<Rightarrow> num" where
  "centroid_x c = num_div (num_add (x1 c) (x2 c)) (Fin 2)"

definition centroid_y :: "region \<Rightarrow> num" where
  "centroid_y c = num_div (num_add (y1 c) (y2 c)) (Fin 2)"

definition getGridSection :: "region \<Rightarrow> string" where
  "getGridSection normalizedCoords =
     find_section GRID_SECTIONS (centroid_x normalizedCoords) (centroid_y normalizedCoords)"

definition clamp01 :: "num \<Rightarrow> num" where
  "clamp01 v = Math_max (Fin 0) (Math_min (Fin 1) v)"

definition clampCoords :: "region \<Rightarrow> region" where
  "clampCoords coords =
     \<lparr>x1 = clamp01 (x1 coords), y1 = clamp01 (y1 coords),
      x2 = clamp01 (x2 coords), y2 = clamp01 (y2 coords)\<rparr>"

text \<open>
  The second half of \<open>generateSpatialDescription\<close>, from \<open>clampedCoords\<close> on: the
  phrase for an annotation type and the clamped coordinates.
\<close>

definition spatial_phrase :: "(real \<Rightarrow> real) \<Rightarrow> annotation_type \<Rightarrow> region \<Rightarrow> string" where
  "spatial_phrase times100 ty clampedCoords =
     (let gridSection = getGridSection clampedCoords;
          left = getPercentagePosition times100 (x1 clampedCoords);
          top = getPercentagePosition times100 (y1 clampedCoords);
          right = getPercentagePosition times100 (x2 clampedCoords);
          bottom = getPercentagePosition times100 (y2 clampedCoords);
          width = getPercentagePosition times100 (num_sub (x2 clampedCoords) (x1 clampedCoords));
          height = getPercentagePosition times100 (num_sub (y2 clampedCoords) (y1 clampedCoords));
          description = ''in the '' @ gridSection @ '' of the image ''
      in case ty of
           Rectangle \<Rightarrow>
             description @ ''(a rectangle from '' @ left @ '' left, '' @ top @ '' top to ''
               @ right @ '' right, '' @ bottom @ '' bottom, ''
               @ ''with dimensions '' @ width @ '' wide by '' @ height @ '' tall)''
         | Freehand \<Rightarrow>
             description @ ''(a freehand drawing within a region from '' @ left @ '' left, ''
               @ top @ '' top to '' @ right @ '' right, '' @ bottom @ '' bottom)''
         | Shape \<Rightarrow>
             description @ ''(a shape within a region from '' @ left @ '' left, ''
               @ top @ '' top to '' @ right @ '' right, '' @ bottom @ '' bottom)'')"

text \<open>
  \<open>generateSpatialDescription\<close> returns the phrase and the annotation, whose
  \<open>normalizedCoordinates\<close> it may have assigned. The annotation type has the three
  values of the source's type, so the final \<open>else return ""\<close> of the normalisation
  is not reachable.
\<close>

definition generateSpatialDescription ::
  "(real \<Rightarrow> real) \<Rightarrow> annotation \<Rightarrow> num \<Rightarrow> num \<Rightarrow> string \<times> annotation"
where
  "generateSpatialDescription times100 a imageWidth imageHeight =
     (case normalizedCoordinates a of
        Some coords \<Rightarrow> (spatial_phrase times100 (ann_type a) (clampCoords coords), a)
      | None \<Rightarrow>
          if imageWidth = Fin 1 \<and> imageHeight = Fin 1 then ([], a)
          else
            (let coords =
                   (case ann_type a of
                      Rectangle \<Rightarrow> normalizeRectangleCoordinates (coordinates a) imageWidth imageHeight
                    | _ \<Rightarrow> normalizeFreehandCoordinates (coordinates a) imageWidth imageHeight)
             in (spatial_phrase times100 (ann_type a) (clampCoords coords),
                 a\<lparr>normalizedCoordinates := Some coords\<rparr>)))"

section \<open>String operations of the source\<close>

abbreviation nl :: string where
  "nl \<equiv> [CHR 0x0A]"

text \<open>A text between double quotes, as the template literals write it.\<close>

definition quoted :: "string \<Rightarrow> string" where
  "quoted s = [CHR 0x22] @ s @ [CHR 0x22]"

text \<open>\<open>s.includes(sub)\<close>.\<close>

fun str_includes :: "string \<Rightarrow> string \<Rightarrow> bool" where
  "str_includes [] sub = (sub = [])"
| "str_includes (c # cs) sub = (prefix sub (c # cs) \<or> str_includes cs sub)"

text \<open>\<open>s.split(sep)[0]\<close> for a non-empty separator: the text before its first occurrence.\<close>

fun before_separator :: "string \<Rightarrow> string \<Rightarrow> string" where
  "before_separator sep [] = []"
| "before_separator sep (c # cs) =
     (if prefix sep (c # cs) then [] else c # before_separator sep cs)"

text \<open>
  \<open>s.trim()\<close>: the white space of the source among the code units 0 to 255 is tab, line
  feed, vertical tab, form feed, carriage return, space and the no-break space.
\<close>

definition is_whitespace :: "char \<Rightarrow> bool" where
  "is_whitespace c \<longleftrightarrow> (of_char c :: nat) \<in> {9, 10, 11, 12, 13, 32, 160}"

definition trim :: "string \<Rightarrow> string" where
  "trim s = rev (dropWhile is_whitespace (rev (dropWhile is_whitespace s)))"

text \<open>\<open>s.substring(0, n)\<close>: a negative \<open>n\<close> counts as 0.\<close>

definition substring0 :: "string \<Rightarrow> int \<Rightarrow> string" where
  "substring0 s n = take (nat n) s"

text \<open>\<open>s.replace(pat, rep)\<close> with a string pattern: the first occurrence only.\<close>

fun replace_first :: "string \<Rightarrow> string \<Rightarrow> string \<Rightarrow> string" where
  "replace_first pat rep [] = (if pat = [] then rep else [])"
| "replace_first pat rep (c # cs) =
     (if prefix pat (c # cs) then rep @ drop (length pat) (c # cs)
      else c # replace_first pat rep cs)"

text \<open>Truthiness of an optional string: neither \<open>undefined\<close> nor empty.\<close>

definition str_truthy :: "string option \<Rightarrow> bool" where
  "str_truthy s = (case s of None \<Rightarrow> False | Some t \<Rightarrow> t \<noteq> [])"

text \<open>\<open>a || b\<close> for an optional string \<open>a\<close>.\<close>

definition str_or :: "string option \<Rightarrow> string \<Rightarrow> string" where
  "str_or a b = (case a of None \<Rightarrow> b | Some t \<Rightarrow> if t = [] then b else t)"

text \<open>A string inside a template literal when it may be \<open>undefined\<close>.\<close>

definition template_opt :: "string option \<Rightarrow> string" where
  "template_opt s = (case s of None \<Rightarrow> ''undefined'' | Some t \<Rightarrow> t)"

text \<open>
  \<open>Number(s)\<close> on the pieces of a size token: a non-empty run of decimal digits is its
  value. The size type of the source admits only such pieces
  (\<open>'1024x1024' | '1024x1792' | '1792x1024' | '512x512'\<close>); any other text, and a
  missing piece, is taken as NaN.
\<close>

definition is_digit :: "char \<Rightarrow> bool" where
  "is_digit c \<longleftrightarrow> 48 \<le> (of_char c :: nat) \<and> (of_char c :: nat) \<le> 57"

definition digits_value :: "string \<Rightarrow> nat" where
  "digits_value s = foldl (\<lambda>acc c. 10 * acc + ((of_char c :: nat) - 48)) 0 s"

definition Number :: "string \<Rightarrow> num" where
  "Number s = (if s \<noteq> [] \<and> list_all is_digit s then Fin (of_nat (digits_value s)) else NaN)"

section \<open>spatialProcessing.ts: the refinement prompt\<close>

text \<open>
  \<open>generateAnnotationsDescription\<close> maps over the annotations with their index; each
  annotation gets its \<open>spatialReference\<close> (and possibly its region) assigned. The
  function returns the lines and the updated annotations.
\<close>

fun describe_annotations ::
  "(real \<Rightarrow> real) \<Rightarrow> annotation list \<Rightarrow> nat \<Rightarrow> num \<Rightarrow> num
   \<Rightarrow> string list \<times> annotation list"
where
  "describe_annotations times100 [] index imageWidth imageHeight = ([], [])"
| "describe_annotations times100 (a # rest) index imageWidth imageHeight =
     (let (spatialDescription, a1) =
            (if str_truthy (spatialReference a) then (the (spatialReference a), a)
             else generateSpatialDescription times100 a imageWidth imageHeight);
          a2 = a1\<lparr>spatialReference := Some spatialDescription\<rparr>;
          line = ''Region '' @ show_nat (index + 1) @ '': '' @ spatialDescription
                   @ ''. Feedback: '' @ feedback a2;
          (lines, rest') = describe_annotations times100 rest (index + 1) imageWidth imageHeight
      in (line # lines, a2 # rest'))"

text \<open>\<open>lines.join(sep)\<close>.\<close>

fun join :: "string \<Rightarrow> string list \<Rightarrow> string" where
  "join sep [] = []"
| "join sep [l] = l"
| "join sep (l # ls) = l @ sep @ join sep ls"

definition generateAnnotationsDescription ::
  "(real \<Rightarrow> real) \<Rightarrow> annotation list \<Rightarrow> num \<Rightarrow> num \<Rightarrow> string \<times> annotation list"
where
  "generateAnnotationsDescription times100 annotations imageWidth imageHeight =
     (if annotations = [] then ([], annotations)
      else (let (lines, annotations') =
                  describe_annotations times100 annotations 0 imageWidth imageHeight
            in (join (nl @ nl) lines, annotations')))"

record original_image =
  oi_prompt :: string
  oi_description :: "string option"
  oi_width :: num
  oi_height :: num

definition generateRefinementPrompt ::
  "(real \<Rightarrow> real) \<Rightarrow> original_image \<Rightarrow> annotation list \<Rightarrow> string option
   \<Rightarrow> string \<times> annotation list"
where
  "generateRefinementPrompt times100 originalImage annotations globalFeedback =
     (let prompt0 = ''# IMAGE REFINEMENT'' @ nl @ nl;
          prompt1 = prompt0 @ ''## ORIGINAL: '' @ quoted (oi_prompt originalImage) @ nl @ nl;
          prompt2 =
            (if str_truthy (oi_description originalImage) then
               (let description = the (oi_description originalImage);
                    truncatedDesc =
                      (if length description > 800 then substring0 description 800 @ ''...''
                       else description)
                in prompt1 @ ''## REFERENCE IMAGE ANALYSIS'' @ nl @ truncatedDesc @ nl @ nl)
             else prompt1);
          prompt3 =
            (if str_truthy globalFeedback \<and> trim (the globalFeedback) \<noteq> [] then
               prompt2 @ ''## GLOBAL CHANGES'' @ nl @ the globalFeedback @ nl @ nl
             else prompt2);
          (prompt4, annotations') =
            (if annotations \<noteq> [] then
               (let (body, annotations') =
                      generateAnnotationsDescription times100 annotations
                        (oi_width originalImage) (oi_height originalImage)
                in (prompt3 @ ''## REGION CHANGES'' @ nl @ body @ nl @ nl, annotations'))
             else (prompt3, annotations))
      in (prompt4 @ ''## APPROACH'' @ nl
            @ ''1. Use reference analysis as base'' @ nl
            @ ''2. Apply specified changes'' @ nl
            @ ''3. Maintain composition and style consistency'' @ nl,
          annotations'))"

definition estimateImageDimensions :: "string \<Rightarrow> num \<times> num" where
  "estimateImageDimensions imageSize =
     (let parts = map Number (split_char (CHR ''x'') imageSize)
      in (coord_at parts 0, coord_at parts 1))"

section \<open>imageGeneration.ts: composing the refinement prompt\<close>

definition combined_prompt :: "string \<Rightarrow> string \<Rightarrow> string" where
  "combined_prompt originalPrompt spatialRefinementPrompt =
     ''Original image prompt: '' @ quoted originalPrompt @ nl @ nl
       @ ''Refinement instructions: '' @ spatialRefinementPrompt"

definition description_marker :: string where
  "description_marker = ''... [description truncated to fit DALL-E character limit]''"

definition refinement_marker :: string where
  "refinement_marker = ''... [refinement truncated to fit DALL-E character limit]''"

text \<open>
  The length check of \<open>refineImage\<close> (the block from \<open>let combinedPrompt\<close> to the
  assignment of \<open>options.prompt\<close>): from the original prompt, the refinement text and
  \<open>options.imageDescription\<close> to the prompt that is dispatched and the new value of
  \<open>options.imageDescription\<close>.
\<close>

definition truncate_combined :: "string \<Rightarrow> string \<Rightarrow> string option \<Rightarrow> string \<times> string option" where
  "truncate_combined originalPrompt spatialRefinementPrompt imageDescription =
     (let combinedPrompt = combined_prompt originalPrompt spatialRefinementPrompt;
          descriptionLength = (if str_truthy imageDescription then length (the imageDescription) else 0);
          combinedLength = length combinedPrompt + descriptionLength
      in if combinedLength > 3800 then
           (let imageDescription' =
                  (if str_truthy imageDescription \<and> length (the imageDescription) > 1000
                   then Some (substring0 (the imageDescription) 1000 @ description_marker)
                   else imageDescription);
                combinedPrompt' = combined_prompt originalPrompt spatialRefinementPrompt
            in if length combinedPrompt' > 3800 then
                 (let maxRefinementLength = 3800 - int (length originalPrompt) - 50;
                      spatialRefinementPrompt' =
                        substring0 spatialRefinementPrompt maxRefinementLength @ refinement_marker
                  in (combined_prompt originalPrompt spatialRefinementPrompt', imageDescription'))
               else (combinedPrompt', imageDescription'))
         else (combinedPrompt, imageDescription))"

text \<open>
  The spatial step of \<open>refineImage\<close>: with annotations, and unless the refinement text
  already carries a reference image analysis, the text is rebuilt by
  \<open>generateRefinementPrompt\<close> from the first paragraph of the refinement text. The
  second component is the annotations as the step leaves them.
\<close>

definition spatial_refinement ::
  "(real \<Rightarrow> real) \<Rightarrow> string \<Rightarrow> string \<Rightarrow> string option \<Rightarrow> string \<Rightarrow> annotation list option
   \<Rightarrow> string \<times> annotation list option"
where
  "spatial_refinement times100 originalPrompt refinementPrompt imageDescription imageSize
       annotations =
     (let (width, height) = estimateImageDimensions imageSize;
          hasImageAnalysisInPrompt = str_includes refinementPrompt ''## REFERENCE IMAGE ANALYSIS''
      in case annotations of
           None \<Rightarrow> (refinementPrompt, None)
         | Some anns \<Rightarrow>
             if anns \<noteq> [] \<and> \<not> hasImageAnalysisInPrompt then
               (let globalFeedback = trim (before_separator (nl @ nl) refinementPrompt);
                    (body, anns') =
                      generateRefinementPrompt times100
                        \<lparr>oi_prompt = originalPrompt, oi_description = imageDescription,
                         oi_width = width, oi_height = height\<rparr>
                        anns (Some globalFeedback)
                in (body, Some anns'))
             else (refinementPrompt, Some anns))"

section \<open>JSON values\<close>

text \<open>
  The values that \<open>response.json()\<close> can produce, with \<open>undefined\<close> for what a
  property access yields when the property is absent. An object is the list of its own
  properties, each key once.
\<close>

datatype json =
    JUndefined
  | JNull
  | JBool bool
  | JNum num
  | JStr string
  | JArr "json list"
  | JObj "(string \<times> json) list"

definition nullish :: "json \<Rightarrow> bool" where
  "nullish v \<longleftrightarrow> v = JUndefined \<or> v = JNull"

text \<open>\<open>if (v)\<close>, \<open>!v\<close>, \<open>v || w\<close>: the falsy values.\<close>

definition truthy :: "json \<Rightarrow> bool" where
  "truthy v =
     (case v of
        JUndefined \<Rightarrow> False
      | JNull \<Rightarrow> False
      | JBool b \<Rightarrow> b
      | JNum n \<Rightarrow> n \<noteq> Fin 0 \<and> n \<noteq> NaN
      | JStr s \<Rightarrow> s \<noteq> []
      | JArr _ \<Rightarrow> True
      | JObj _ \<Rightarrow> True)"

definition json_or :: "json \<Rightarrow> json \<Rightarrow> json" where
  "json_or a b = (if truthy a then a else b)"

text \<open>
  \<open>v.name\<close> for the property names that the source reads from a response (\<open>data\<close>,
  \<open>error\<close>, \<open>message\<close>, \<open>url\<close>, \<open>images\<close>, \<open>output\<close>, \<open>result\<close>, \<open>status\<close>,
  \<open>detail\<close>, \<open>urls\<close>, \<open>get\<close>, \<open>choices\<close>, \<open>content\<close>): reading a property of
  \<open>null\<close> or \<open>undefined\<close> throws a TypeError (see \<open>read_prop\<close> below); arrays,
  strings, numbers and booleans have none of these properties.
\<close>

definition own_prop :: "json \<Rightarrow> string \<Rightarrow> json" where
  "own_prop v name =
     (case v of
        JObj kvs \<Rightarrow> (case map_of kvs name of Some x \<Rightarrow> x | None \<Rightarrow> JUndefined)
      | _ \<Rightarrow> JUndefined)"

text \<open>\<open>v?.name\<close>.\<close>

definition opt_prop :: "json \<Rightarrow> string \<Rightarrow> json" where
  "opt_prop v name = (if nullish v then JUndefined else own_prop v name)"

text \<open>\<open>v[0]\<close> on a value that is not \<open>null\<close> or \<open>undefined\<close>, and \<open>v?.[0]\<close>.\<close>

definition first_element :: "json \<Rightarrow> json" where
  "first_element v =
     (case v of
        JArr xs \<Rightarrow> (case xs of [] \<Rightarrow> JUndefined | x # _ \<Rightarrow> x)
      | JStr s \<Rightarrow> (case s of [] \<Rightarrow> JUndefined | c # _ \<Rightarrow> JStr [c])
      | JObj kvs \<Rightarrow> (case map_of kvs ''0'' of Some x \<Rightarrow> x | None \<Rightarrow> JUndefined)
      | _ \<Rightarrow> JUndefined)"

definition opt_index0 :: "json \<Rightarrow> json" where
  "opt_index0 v = (if nullish v then JUndefined else first_element v)"

definition is_string :: "json \<Rightarrow> bool" where
  "is_string v = (case v of JStr _ \<Rightarrow> True | _ \<Rightarrow> False)"

text \<open>\<open>Array.isArray(v) && v.length > 0\<close>.\<close>

definition nonempty_array :: "json \<Rightarrow> bool" where
  "nonempty_array v = (case v of JArr xs \<Rightarrow> xs \<noteq> [] | _ \<Rightarrow> False)"

definition opt_str :: "string option \<Rightarrow> json" where
  "opt_str s = (case s of None \<Rightarrow> JUndefined | Some t \<Rightarrow> JStr t)"

section \<open>The environment and the state\<close>

record request =
  req_url :: json
  req_method :: string
  req_headers :: "(string \<times> string) list"
  req_body :: "json option"

text \<open>
  A response: its \<open>ok\<close> flag and status text, what \<open>response.json()\<close> gives, and what
  \<open>response.blob()\<close> followed by \<open>blobToBase64\<close> gives (a data URL).
\<close>

record response =
  resp_ok :: bool
  resp_statusText :: string
  resp_json :: "js_error + json"
  resp_blob :: "js_error + string"

datatype ipc_call =
    GetAppDataDir
  | EnsureDirectory string
  | SaveBase64Image string string
  | DownloadImage json string

text \<open>
  Everything outside the program is an oracle: the outcome of the \<open>n\<close>-th \<open>fetch\<close>;
  for the \<open>n\<close>-th call to the platform, the path that \<open>app.getPath('userData')\<close> gives
  (or its failure) and whether the file operation of a handler went through; the clock,
  the UUID generator and the random numbers (indexed by the number of platform calls made
  so far); three built-ins of the language whose results are only ever copied into
  texts: \<open>String(v)\<close> on a value that is not a string, \<open>JSON.stringify\<close>, and
  \<open>new URL(s)\<close> giving the protocol and the host (or failing); the message of the
  TypeError that the engine throws when a property \<open>name\<close> of \<open>v\<close> (\<open>null\<close> or
  \<open>undefined\<close>) is read; and the product of a double with 100.
\<close>

record env =
  net :: "nat \<Rightarrow> request \<Rightarrow> js_error + response"
  user_data_path :: "nat \<Rightarrow> js_error + string"
  file_ok :: "nat \<Rightarrow> ipc_call \<Rightarrow> bool"
  now :: "nat \<Rightarrow> nat"
  uuidv4 :: "nat \<Rightarrow> string"
  random1000 :: "nat \<Rightarrow> nat"
  to_text :: "json \<Rightarrow> string"
  stringify :: "json \<Rightarrow> string"
  parse_url :: "string \<Rightarrow> (string \<times> string) option"
  type_error_text :: "json \<Rightarrow> string \<Rightarrow> string"
  times100 :: "real \<Rightarrow> real"

text \<open>
  main.ts, the handlers of the platform calls. \<open>getAppDataDir\<close> returns the path and has
  no \<open>try\<close>, so its failure rejects the call. \<open>ensureDirectory\<close>, \<open>saveBase64Image\<close>
  and \<open>downloadImage\<close> each wrap their whole body in \<open>try\<close>/\<open>catch\<close> and return
  \<open>true\<close> when the directory or file is there at the end and \<open>false\<close> when anything
  failed: these calls never reject.
\<close>

definition ipc :: "env \<Rightarrow> nat \<Rightarrow> ipc_call \<Rightarrow> js_error + json" where
  "ipc e n call =
     (case call of
        GetAppDataDir \<Rightarrow>
          (case user_data_path e n of Inl err \<Rightarrow> Inl err | Inr path \<Rightarrow> Inr (JStr path))
      | _ \<Rightarrow> Inr (JBool (file_ok e n call)))"

text \<open>\<open>v.name\<close> and \<open>v[0]\<close>, which throw on \<open>null\<close> and \<open>undefined\<close>.\<close>

definition read_prop :: "env \<Rightarrow> json \<Rightarrow> string \<Rightarrow> js_error + json" where
  "read_prop e v name =
     (if nullish v then Inl (JsError (type_error_text e v name)) else Inr (own_prop v name))"

definition index0 :: "env \<Rightarrow> json \<Rightarrow> js_error + json" where
  "index0 e v =
     (if nullish v then Inl (JsError (type_error_text e v ''0'')) else Inr (first_element v))"

text \<open>
  The state: the module variable \<open>baseImageDir\<close> of imageStorage.ts, the record of what
  the program has done to the outside (requests sent, platform calls, waits in
  milliseconds), each in order, and the annotation arrays. An array of annotations is an
  object that a message and the argument of \<open>refineImage\<close> share: \<open>arrays\<close> gives, for
  the reference of an array, the annotations it holds, and a message or an argument
  carries the reference.
\<close>

record world =
  baseImageDir :: "string option"
  fetch_log :: "request list"
  ipc_log :: "ipc_call list"
  sleep_log :: "nat list"
  arrays :: "nat \<Rightarrow> annotation list"

type_synonym 'a io = "world \<Rightarrow> (js_error + 'a) \<times> world"

definition io_return :: "'a \<Rightarrow> 'a io" where
  "io_return x = (\<lambda>w. (Inr x, w))"

definition io_throw :: "js_error \<Rightarrow> 'a io" where
  "io_throw e = (\<lambda>w. (Inl e, w))"

definition io_lift :: "js_error + 'a \<Rightarrow> 'a io" where
  "io_lift r = (\<lambda>w. (r, w))"

definition io_bind :: "'a io \<Rightarrow> ('a \<Rightarrow> 'b io) \<Rightarrow> 'b io" where
  "io_bind m f = (\<lambda>w. case m w of (Inl e, w') \<Rightarrow> (Inl e, w') | (Inr x, w') \<Rightarrow> f x w')"

text \<open>\<open>try { m } catch (e) { h e }\<close>.\<close>

definition io_catch :: "'a io \<Rightarrow> (js_error \<Rightarrow> 'a io) \<Rightarrow> 'a io" where
  "io_catch m h = (\<lambda>w. case m w of (Inl e, w') \<Rightarrow> h e w' | (Inr x, w') \<Rightarrow> (Inr x, w'))"

definition fetch :: "env \<Rightarrow> request \<Rightarrow> response io" where
  "fetch e req = (\<lambda>w. (net e (length (fetch_log w)) req, w\<lparr>fetch_log := fetch_log w @ [req]\<rparr>))"

definition invoke :: "env \<Rightarrow> ipc_call \<Rightarrow> json io" where
  "invoke e call = (\<lambda>w. (ipc e (length (ipc_log w)) call, w\<lparr>ipc_log := ipc_log w @ [call]\<rparr>))"

text \<open>\<open>await new Promise(resolve => setTimeout(resolve, ms))\<close>.\<close>

definition sleep :: "nat \<Rightarrow> unit io" where
  "sleep ms = (\<lambda>w. (Inr (), w\<lparr>sleep_log := sleep_log w @ [ms]\<rparr>))"

text \<open>A value inside a template literal: a string is copied, anything else goes through \<open>String\<close>.\<close>

definition template_text :: "env \<Rightarrow> json \<Rightarrow> string" where
  "template_text e v = (case v of JStr s \<Rightarrow> s | _ \<Rightarrow> to_text e v)"

section \<open>imageStorage.ts: saving images\<close>

text \<open>
  \<open>initImageStorage\<close>: the \<open>catch\<close> of the source logs and rethrows, so a failure of the
  platform passes through. \<open>baseImageDir\<close> is assigned before the directory is created.
\<close>

definition initImageStorage :: "env \<Rightarrow> string option \<Rightarrow> string io" where
  "initImageStorage e customPath =
     (\<lambda>w. if str_truthy (baseImageDir w) then (Inr (the (baseImageDir w)), w)
          else
            io_bind
              (if str_truthy customPath then io_return (the customPath)
               else io_bind (invoke e GetAppDataDir)
                      (\<lambda>appDataDir. io_return (template_text e appDataDir @ ''/images'')))
              (\<lambda>dir w1.
                 io_bind (invoke e (EnsureDirectory dir)) (\<lambda>_. io_return dir)
                   (w1\<lparr>baseImageDir := Some dir\<rparr>))
              w)"

definition getSessionDirectory :: "env \<Rightarrow> string \<Rightarrow> string io" where
  "getSessionDirectory e sessionId =
     io_bind (initImageStorage e None)
       (\<lambda>_ w.
          if \<not> str_truthy (baseImageDir w) then
            io_throw (JsError ''Image storage not initialized'') w
          else
            (let sessionDir = the (baseImageDir w) @ ''/'' @ sessionId
             in io_bind (invoke e (EnsureDirectory sessionDir)) (\<lambda>_. io_return sessionDir) w))"

text \<open>\<open>`${Date.now()}-${uuidv4().substring(0, 8)}.png`\<close>.\<close>

definition fresh_filename :: "env \<Rightarrow> world \<Rightarrow> string" where
  "fresh_filename e w =
     show_nat (now e (length (ipc_log w))) @ ''-''
       @ substring0 (uuidv4 e (length (ipc_log w))) 8 @ ''.png''"

definition is_word_char :: "char \<Rightarrow> bool" where
  "is_word_char c \<longleftrightarrow>
     c \<in> set ''ABCDEFGHIJKLMNOPQRSTUVWXYZabcdefghijklmnopqrstuvwxyz0123456789_''"

text \<open>\<open>dataUrl.replace(/^data:image\/\w+;base64,/, '')\<close>.\<close>

definition strip_data_url_prefix :: "string \<Rightarrow> string" where
  "strip_data_url_prefix dataUrl =
     (if prefix ''data:image/'' dataUrl then
        (let rest = drop (length ''data:image/'') dataUrl;
             word = takeWhile is_word_char rest;
             after = dropWhile is_word_char rest
         in if word \<noteq> [] \<and> prefix '';base64,'' after
            then drop (length '';base64,'') after
            else dataUrl)
      else dataUrl)"

text \<open>
  \<open>saveImageFromDataUrl\<close>: its \<open>catch\<close> logs and rethrows. What the platform call
  returns is not looked at.
\<close>

definition saveImageFromDataUrl :: "env \<Rightarrow> string \<Rightarrow> string \<Rightarrow> string io" where
  "saveImageFromDataUrl e dataUrl sessionId =
     io_bind (getSessionDirectory e sessionId)
       (\<lambda>sessionDir w.
          (let filePath = sessionDir @ ''/'' @ fresh_filename e w;
               base64Data = strip_data_url_prefix dataUrl
           in io_bind (invoke e (SaveBase64Image filePath base64Data))
                (\<lambda>_. io_return (getFileUrl filePath)) w))"

text \<open>
  \<open>saveImageFromUrl\<close>: its \<open>catch\<close> returns a placeholder URL. What the platform call
  returns is not looked at.
\<close>

definition saveImageFromUrl :: "env \<Rightarrow> json \<Rightarrow> string \<Rightarrow> string io" where
  "saveImageFromUrl e url sessionId =
     io_catch
       (io_bind (getSessionDirectory e sessionId)
          (\<lambda>sessionDir w.
             (let filePath = sessionDir @ ''/'' @ fresh_filename e w
              in io_bind (invoke e (DownloadImage url filePath))
                   (\<lambda>_. io_return (getFileUrl filePath)) w)))
       (\<lambda>err w.
          io_return
            (''https://picsum.photos/1024/1024?random=''
               @ show_nat (random1000 e (length (ipc_log w)))) w)"

section \<open>imageGeneration.ts: options, results and adapters\<close>

text \<open>
  The fields of \<open>ImageGenerationOptions\<close> carry the prefix \<open>opt_\<close> and those of
  \<open>ImageGenerationResult\<close> the prefix \<open>res_\<close>; an optional field is an \<open>option\<close>.
  The model and the provider are the strings of the enums of the source.
\<close>

record ImageGenerationOptions =
  opt_prompt :: string
  opt_size :: string
  opt_model :: string
  opt_apiKey :: "string option"
  opt_apiEndpoint :: "string option"
  opt_stableDiffusionHost :: "string option"
  opt_stableDiffusionProvider :: "string option"
  opt_stableDiffusionAPIKey :: "string option"
  opt_sessionId :: string
  opt_negativePrompt :: "string option"
  opt_numberOfImages :: "num option"
  opt_style :: "string option"
  opt_quality :: "string option"
  opt_imageDescription :: "string option"
  opt_imageUrl :: "string option"
  opt_uploadPreviousImage :: "bool option"

record ImageGenerationResult =
  res_success :: bool
  res_imageUrl :: string
  res_localImagePath :: "string option"
  res_error :: "string option"
  res_fullPrompt :: "string option"

definition DEFAULT_OPENAI_API_ENDPOINT :: string where
  "DEFAULT_OPENAI_API_ENDPOINT = ''https://api.openai.com/v1/images/generations''"

definition STABLEDIFFUSIONAPI_ENDPOINT :: string where
  "STABLEDIFFUSIONAPI_ENDPOINT = ''https://stablediffusionapi.com/api/v3/text2img''"

definition REPLICATE_ENDPOINT :: string where
  "REPLICATE_ENDPOINT = ''https://api.replicate.com/v1/predictions''"

text \<open>The two result literals of every adapter.\<close>

definition failed :: "string \<Rightarrow> ImageGenerationResult" where
  "failed message =
     \<lparr>res_success = False, res_imageUrl = [], res_localImagePath = None,
      res_error = Some message, res_fullPrompt = None\<rparr>"

definition saved :: "string \<Rightarrow> ImageGenerationResult" where
  "saved localImageUrl =
     \<lparr>res_success = True, res_imageUrl = localImageUrl, res_localImagePath = Some localImageUrl,
      res_error = None, res_fullPrompt = None\<rparr>"

text \<open>The \<open>catch\<close> block shared by the adapters.\<close>

definition catch_to_failure :: "ImageGenerationResult io \<Rightarrow> ImageGenerationResult io" where
  "catch_to_failure m = io_catch m (\<lambda>err. io_return (failed (error_message err)))"

definition post :: "string \<Rightarrow> (string \<times> string) list \<Rightarrow> json \<Rightarrow> request" where
  "post endpoint headers body =
     \<lparr>req_url = JStr endpoint, req_method = ''POST'', req_headers = headers,
      req_body = Some body\<rparr>"

text \<open>\<open>fetch(url)\<close> without options.\<close>

definition get_request :: "json \<Rightarrow> request" where
  "get_request url = \<lparr>req_url = url, req_method = ''GET'', req_headers = [], req_body = None\<rparr>"

definition json_headers :: "(string \<times> string) list" where
  "json_headers = [(''Content-Type'', ''application/json'')]"

text \<open>\<open>const [width, height] = options.size.split('x').map(Number)\<close>.\<close>

definition size_dimensions :: "string \<Rightarrow> num \<times> num" where
  "size_dimensions s =
     (let parts = map Number (split_char (CHR ''x'') s)
      in (coord_at parts 0, coord_at parts 1))"

text \<open>\<open>options.numberOfImages || 1\<close>.\<close>

definition number_of_images :: "ImageGenerationOptions \<Rightarrow> num" where
  "number_of_images options =
     (case opt_numberOfImages options of
        None \<Rightarrow> Fin 1
      | Some n \<Rightarrow> if n = Fin 0 \<or> n = NaN then Fin 1 else n)"

text \<open>The request that \<open>generateWithDalle\<close> posts.\<close>

definition dalle_request :: "ImageGenerationOptions \<Rightarrow> request" where
  "dalle_request options =
     (let endpoint = str_or (opt_apiEndpoint options) DEFAULT_OPENAI_API_ENDPOINT;
          modelName = (if opt_model options = ''dall-e-3'' then ''dall-e-3'' else ''dall-e-2'');
          requestBody =
            JObj ([(''model'', JStr modelName),
                   (''prompt'', JStr (opt_prompt options)),
                   (''n'', JNum (Fin 1)),
                   (''size'', JStr (opt_size options)),
                   (''response_format'', JStr ''url'')]
                  @ (if modelName = ''dall-e-3'' then
                       (if str_truthy (opt_style options)
                        then [(''style'', JStr (the (opt_style options)))] else [])
                       @ (if str_truthy (opt_quality options)
                          then [(''quality'', JStr (the (opt_quality options)))] else [])
                     else []))
      in post endpoint
           (json_headers @ [(''Authorization'', ''Bearer '' @ the (opt_apiKey options))])
           requestBody)"

definition generateWithDalle :: "env \<Rightarrow> ImageGenerationOptions \<Rightarrow> ImageGenerationResult io" where
  "generateWithDalle e options =
     catch_to_failure
       (if \<not> str_truthy (opt_apiKey options) then
          io_throw (JsError ''API key is required for DALL-E image generation'')
        else
          (io_bind
                (fetch e (dalle_request options))
                (\<lambda>response.
                   if \<not> resp_ok response then
                     io_bind (io_lift (resp_json response)) (\<lambda>errorData.
                     io_bind (io_lift (read_prop e errorData ''error'')) (\<lambda>err.
                       io_throw (JsError (''DALL-E API error: ''
                         @ template_text e (json_or (opt_prop err ''message'')
                                              (JStr (resp_statusText response)))))))
                   else
                     io_bind (io_lift (resp_json response)) (\<lambda>data.
                     io_bind (io_lift (read_prop e data ''data'')) (\<lambda>items.
                       (let imageUrl = opt_prop (opt_index0 items) ''url''
                        in if \<not> truthy imageUrl then
                             io_throw (JsError ''No image URL returned from DALL-E API'')
                           else
                             io_bind (saveImageFromUrl e imageUrl (opt_sessionId options))
                               (\<lambda>localImageUrl. io_return (saved localImageUrl))))))))"

text \<open>The base URL of the API: protocol and host of \<open>apiEndpoint\<close> when it parses.\<close>

definition base_api_url :: "env \<Rightarrow> ImageGenerationOptions \<Rightarrow> string" where
  "base_api_url e options =
     (if str_truthy (opt_apiEndpoint options) then
        (case parse_url e (the (opt_apiEndpoint options)) of
           Some (protocol, host) \<Rightarrow> protocol @ ''//'' @ host
         | None \<Rightarrow> ''https://api.openai.com'')
      else ''https://api.openai.com'')"

definition enhancer_system_message :: string where
  "enhancer_system_message =
     ''You are an expert prompt enhancer for image generation. Your task is to analyze an image and the user'' @ [CHR 0x27] @ ''s prompt, then create a detailed, vivid prompt that captures both the essence of the original image and incorporates the user'' @ [CHR 0x27] @ ''s requested changes. Focus on artistic style, composition, lighting, and important details.''"

definition enhancer_user_text :: "string \<Rightarrow> string" where
  "enhancer_user_text p =
     ''I want to generate a new image based on this reference image. '' @ nl
     @ ''    '' @ nl
     @ ''Original prompt: '' @ quoted p @ nl @ nl
     @ ''Please create an enhanced, detailed prompt that incorporates all the important visual elements from the reference image while applying the changes I'' @ [CHR 0x27] @ ''m requesting in my prompt. Make the description vivid and detailed - around 100-200 words.''"

text \<open>
  The image part of the enhancement request: \<open>Some\<close> data when the image could be
  included, \<open>None\<close> when the inner \<open>try\<close> failed and the request goes without it.
\<close>

definition enhancer_image_data :: "env \<Rightarrow> string \<Rightarrow> string option io" where
  "enhancer_image_data e url =
     io_catch
       (if prefix ''file://'' url then
          io_catch
            (io_bind (fetch e (get_request (JStr url)))
               (\<lambda>response. io_bind (io_lift (resp_blob response))
                  (\<lambda>imageData. io_return (Some imageData))))
            (\<lambda>err. io_return (Some url))
        else if prefix ''data:'' url then io_return (Some url)
        else
          io_bind (fetch e (get_request (JStr url)))
            (\<lambda>response. io_bind (io_lift (resp_blob response))
               (\<lambda>imageData. io_return (Some imageData))))
       (\<lambda>err. io_return None)"

definition enhancePromptWithGPT4o :: "env \<Rightarrow> ImageGenerationOptions \<Rightarrow> json io" where
  "enhancePromptWithGPT4o e options =
     (let endpoint = base_api_url e options @ ''/v1/chat/completions'';
          headers = json_headers
            @ [(''Authorization'', ''Bearer '' @ template_opt (opt_apiKey options))];
          textPart = JObj [(''type'', JStr ''text''),
                           (''text'', JStr (enhancer_user_text (opt_prompt options)))]
      in io_bind
           (if str_truthy (opt_imageUrl options)
            then enhancer_image_data e (the (opt_imageUrl options))
            else io_return None)
           (\<lambda>imageData.
              (let userContent =
                     [textPart]
                     @ (case imageData of
                          None \<Rightarrow> []
                        | Some d \<Rightarrow>
                            [JObj [(''type'', JStr ''image_url''),
                                   (''image_url'', JObj [(''url'', JStr d)])]]);
                   messages =
                     [JObj [(''role'', JStr ''system''), (''content'', JStr enhancer_system_message)],
                      JObj [(''role'', JStr ''user''), (''content'', JArr userContent)]];
                   requestBody =
                     JObj [(''model'', JStr ''gpt-4o''), (''messages'', JArr messages),
                           (''temperature'', JNum (Fin (7 / 10)))]
               in io_bind (fetch e (post endpoint headers requestBody))
                    (\<lambda>response.
                       if \<not> resp_ok response then
                         io_bind (io_lift (resp_json response)) (\<lambda>errorData.
                           io_throw (JsError (''GPT-4o API Error: '' @ stringify e errorData)))
                       else
                         io_bind (io_lift (resp_json response)) (\<lambda>data.
                         io_bind (io_lift (read_prop e data ''choices'')) (\<lambda>choices.
                         io_bind (io_lift (index0 e choices)) (\<lambda>choice.
                           (let enhancedPrompt = opt_prop (opt_prop choice ''message'') ''content''
                            in if \<not> truthy enhancedPrompt then
                                 io_throw (JsError ''No enhanced prompt returned from GPT-4o'')
                               else io_return enhancedPrompt))))))))"

text \<open>
  The enrichment step of \<open>generateWithGPT4o\<close>: the prompt that goes into the image
  request. The assignment to \<open>enhancedPrompt\<close> takes place only when
  \<open>enhancePromptWithGPT4o\<close> returns; the \<open>catch\<close> is empty but for a log line.
\<close>

definition enhanced_prompt :: "env \<Rightarrow> ImageGenerationOptions \<Rightarrow> json io" where
  "enhanced_prompt e options =
     (if opt_uploadPreviousImage options = Some True \<and> str_truthy (opt_imageUrl options) then
        io_catch (enhancePromptWithGPT4o e options) (\<lambda>err. io_return (JStr (opt_prompt options)))
      else io_return (JStr (opt_prompt options)))"

text \<open>The image request of \<open>generateWithGPT4o\<close>, for the prompt that the enrichment step left.\<close>

definition gpt4o_image_request :: "env \<Rightarrow> ImageGenerationOptions \<Rightarrow> json \<Rightarrow> request" where
  "gpt4o_image_request e options enhancedPrompt =
     (let endpoint = base_api_url e options @ ''/v1/images/generations'';
          headers = json_headers
            @ [(''Authorization'', ''Bearer '' @ the (opt_apiKey options))];
          requestBody =
            JObj [(''model'', JStr ''dall-e-3''),
                  (''prompt'', enhancedPrompt),
                  (''n'', JNum (Fin 1)),
                  (''size'', JStr (opt_size options)),
                  (''quality'', JStr (str_or (opt_quality options) ''standard'')),
                  (''style'', JStr (str_or (opt_style options) ''vivid''))]
      in post endpoint headers requestBody)"

definition generateWithGPT4o :: "env \<Rightarrow> ImageGenerationOptions \<Rightarrow> ImageGenerationResult io" where
  "generateWithGPT4o e options =
     catch_to_failure
       (if \<not> str_truthy (opt_apiKey options) then
          io_return (failed ''API key is required for GPT-4o image generation'')
        else
          io_bind (enhanced_prompt e options)
            (\<lambda>enhancedPrompt.
               (io_bind (fetch e (gpt4o_image_request e options enhancedPrompt))
                     (\<lambda>response.
                        if \<not> resp_ok response then
                          io_bind (io_lift (resp_json response)) (\<lambda>errorData.
                            io_throw (JsError (''DALL-E API Error: '' @ stringify e errorData)))
                        else
                          io_bind (io_lift (resp_json response)) (\<lambda>data.
                          io_bind (io_lift (read_prop e data ''data'')) (\<lambda>items.
                            (let imageUrl = opt_prop (opt_index0 items) ''url''
                             in if \<not> truthy imageUrl then
                                  io_throw (JsError ''No image URL found in DALL-E response'')
                                else
                                  io_bind (saveImageFromUrl e imageUrl (opt_sessionId options))
                                    (\<lambda>localImageUrl. io_return (saved localImageUrl)))))))))"

definition generateWithLocalStableDiffusion ::
  "env \<Rightarrow> ImageGenerationOptions \<Rightarrow> ImageGenerationResult io"
where
  "generateWithLocalStableDiffusion e options =
     catch_to_failure
       (let baseHost = str_or (opt_stableDiffusionHost options) ''http://localhost:7860'';
            endpoint = baseHost @ ''/sdapi/v1/txt2img'';
            (width, height) = size_dimensions (opt_size options);
            requestBody =
              JObj [(''prompt'', JStr (opt_prompt options)),
                    (''negative_prompt'', JStr (str_or (opt_negativePrompt options) [])),
                    (''width'', JNum width),
                    (''height'', JNum height),
                    (''num_images'', JNum (number_of_images options)),
                    (''sampler_name'', JStr ''DPM++ 2M Karras''),
                    (''steps'', JNum (Fin 30))]
        in io_bind (fetch e (post endpoint json_headers requestBody))
             (\<lambda>response.
                if \<not> resp_ok response then
                  io_throw (JsError (''Stable Diffusion API error: '' @ resp_statusText response))
                else
                  io_bind (io_lift (resp_json response)) (\<lambda>data.
                  io_bind (io_lift (read_prop e data ''images'')) (\<lambda>images.
                    (let base64Image = opt_index0 images
                     in if \<not> truthy base64Image then
                          io_throw (JsError ''No image returned from Stable Diffusion API'')
                        else
                          (let dataUrl = ''data:image/png;base64,'' @ template_text e base64Image
                           in io_bind (saveImageFromDataUrl e dataUrl (opt_sessionId options))
                                (\<lambda>localImageUrl. io_return (saved localImageUrl))))))))"

definition generateWithStableDiffusionAPI ::
  "env \<Rightarrow> ImageGenerationOptions \<Rightarrow> ImageGenerationResult io"
where
  "generateWithStableDiffusionAPI e options =
     catch_to_failure
       (if \<not> str_truthy (opt_stableDiffusionAPIKey options) then
          io_throw (JsError ''API key is required for StableDiffusionAPI.com'')
        else
          (let (width, height) = size_dimensions (opt_size options);
               requestBody =
                 JObj [(''key'', JStr (the (opt_stableDiffusionAPIKey options))),
                       (''prompt'', JStr (opt_prompt options)),
                       (''negative_prompt'', JStr (str_or (opt_negativePrompt options) [])),
                       (''width'', JStr (to_text e (JNum width))),
                       (''height'', JStr (to_text e (JNum height))),
                       (''samples'', JStr (to_text e (JNum (number_of_images options)))),
                       (''num_inference_steps'', JStr ''30''),
                       (''guidance_scale'', JNum (Fin (15 / 2))),
                       (''safety_checker'', JStr ''yes''),
                       (''webhook'', JNull),
                       (''track_id'', JNull)]
           in io_bind (fetch e (post STABLEDIFFUSIONAPI_ENDPOINT json_headers requestBody))
                (\<lambda>response.
                   io_bind (io_lift (resp_json response)) (\<lambda>data.
                   io_bind (io_lift (read_prop e data ''status'')) (\<lambda>status.
                     if status \<noteq> JStr ''success'' then
                       io_throw (JsError (''StableDiffusionAPI.com error: ''
                         @ template_text e (json_or (own_prop data ''message'')
                                              (JStr ''Unknown error''))))
                     else
                       (let imageUrl = opt_index0 (own_prop data ''output'')
                        in if \<not> truthy imageUrl then
                             io_throw (JsError ''No image URL returned from StableDiffusionAPI.com'')
                           else
                             io_bind (saveImageFromUrl e imageUrl (opt_sessionId options))
                               (\<lambda>localImageUrl. io_return (saved localImageUrl))))))))"

text \<open>The two requests of \<open>generateWithReplicate\<close>: starting the prediction, and one poll.\<close>

definition replicate_request :: "ImageGenerationOptions \<Rightarrow> request" where
  "replicate_request options =
     (let (width, height) = size_dimensions (opt_size options);
          requestBody =
            JObj [(''version'',
                     JStr ''db21e45d3f7023abc2a46ee38a23973f6dce16bb082a930b0c49861f96d1e5bf''),
                  (''input'',
                     JObj [(''prompt'', JStr (opt_prompt options)),
                           (''negative_prompt'', JStr (str_or (opt_negativePrompt options) [])),
                           (''width'', JNum width),
                           (''height'', JNum height),
                           (''num_outputs'', JNum (number_of_images options)),
                           (''num_inference_steps'', JNum (Fin 30)),
                           (''guidance_scale'', JNum (Fin (15 / 2)))])]
      in post REPLICATE_ENDPOINT
           (json_headers
            @ [(''Authorization'', ''Token '' @ the (opt_stableDiffusionAPIKey options))])
           requestBody)"

definition poll_request :: "string \<Rightarrow> json \<Rightarrow> request" where
  "poll_request key predictionUrl =
     \<lparr>req_url = predictionUrl, req_method = ''GET'',
      req_headers = [(''Authorization'', ''Token '' @ key)], req_body = None\<rparr>"

text \<open>
  The poll loop of \<open>generateWithReplicate\<close>:
  \<open>for (let attempt = 0; attempt < maxAttempts; attempt++)\<close>. It yields the last value
  of \<open>result\<close>, which is \<open>undefined\<close> when the body never ran.
\<close>

function poll_loop :: "env \<Rightarrow> string \<Rightarrow> json \<Rightarrow> nat \<Rightarrow> nat \<Rightarrow> json \<Rightarrow> json io" where
  "poll_loop e key predictionUrl maxAttempts attempt result =
     (if attempt < maxAttempts then
        io_bind (fetch e (poll_request key predictionUrl))
          (\<lambda>pollResponse.
             io_bind (io_lift (resp_json pollResponse)) (\<lambda>polled.
             io_bind (io_lift (read_prop e polled ''status'')) (\<lambda>status.
               if status = JStr ''succeeded'' then io_return polled
               else if status = JStr ''failed'' then
                 io_throw (JsError (''Replicate generation failed: ''
                   @ template_text e (json_or (own_prop polled ''error'') (JStr ''Unknown error''))))
               else
                 io_bind (sleep 2000)
                   (\<lambda>_. poll_loop e key predictionUrl maxAttempts (attempt + 1) polled))))
      else io_return result)"
  by pat_completeness auto
termination
  by (relation "measure (\<lambda>(e, key, predictionUrl, maxAttempts, attempt, result). maxAttempts - attempt)")
    auto

declare poll_loop.simps [simp del]

text \<open>What \<open>generateWithReplicate\<close> does with the outcome of the poll loop.\<close>

definition after_polling ::
  "env \<Rightarrow> ImageGenerationOptions \<Rightarrow> json \<Rightarrow> ImageGenerationResult io"
where
  "after_polling e options result =
     (if \<not> truthy result \<or> own_prop result ''status'' \<noteq> JStr ''succeeded'' then
        io_throw (JsError ''Timed out waiting for Replicate to generate image'')
      else
        (let imageUrl = opt_index0 (own_prop result ''output'')
         in if \<not> truthy imageUrl then
              io_throw (JsError ''No image URL returned from Replicate'')
            else
              io_bind (saveImageFromUrl e imageUrl (opt_sessionId options))
                (\<lambda>localImageUrl. io_return (saved localImageUrl))))"

definition generateWithReplicate :: "env \<Rightarrow> ImageGenerationOptions \<Rightarrow> ImageGenerationResult io" where
  "generateWithReplicate e options =
     catch_to_failure
       (if \<not> str_truthy (opt_stableDiffusionAPIKey options) then
          io_throw (JsError ''API key is required for Replicate'')
        else
          io_bind (fetch e (replicate_request options))
            (\<lambda>response.
               if \<not> resp_ok response then
                 io_bind (io_lift (resp_json response)) (\<lambda>errorData.
                 io_bind (io_lift (read_prop e errorData ''detail'')) (\<lambda>detail.
                   io_throw (JsError (''Replicate API error: ''
                     @ template_text e (json_or detail (JStr (resp_statusText response)))))))
               else
                 io_bind (io_lift (resp_json response)) (\<lambda>prediction.
                 io_bind (io_lift (read_prop e prediction ''urls'')) (\<lambda>urls.
                   (let predictionUrl = opt_prop urls ''get''
                    in if \<not> truthy predictionUrl then
                         io_throw (JsError ''Invalid response from Replicate'')
                       else
                         io_bind
                           (poll_loop e (the (opt_stableDiffusionAPIKey options))
                              predictionUrl 30 0 JUndefined)
                           (after_polling e options))))))"

text \<open>
  The response shapes that \<open>generateWithCustomStableDiffusion\<close> tries, in the order of
  its \<open>if\<close> chain: either an image URL to download (\<open>null\<close> when the chain assigns
  none), or an inline image to save as a data URL.
\<close>

datatype custom_image = ImageUrl json | InlineImage string

definition custom_response_image :: "json \<Rightarrow> custom_image" where
  "custom_response_image data =
     (if truthy (own_prop data ''output'') \<and> is_string (own_prop data ''output'') then
        ImageUrl (own_prop data ''output'')
      else if truthy (own_prop data ''output'') \<and> nonempty_array (own_prop data ''output'') then
        ImageUrl (first_element (own_prop data ''output''))
      else if truthy (own_prop data ''images'') \<and> nonempty_array (own_prop data ''images'') then
        (case first_element (own_prop data ''images'') of
           JStr base64Image \<Rightarrow>
             if prefix ''data:'' base64Image then InlineImage base64Image
             else InlineImage (''data:image/png;base64,'' @ base64Image)
         | _ \<Rightarrow> ImageUrl JNull)
      else if truthy (own_prop data ''result'') \<and> is_string (own_prop data ''result'') then
        ImageUrl (own_prop data ''result'')
      else if truthy (own_prop data ''url'') \<and> is_string (own_prop data ''url'') then
        ImageUrl (own_prop data ''url'')
      else ImageUrl JNull)"

text \<open>The request that \<open>generateWithCustomStableDiffusion\<close> posts to the configured host.\<close>

definition custom_request :: "ImageGenerationOptions \<Rightarrow> request" where
  "custom_request options =
     (let (width, height) = size_dimensions (opt_size options);
          endpoint = the (opt_stableDiffusionHost options);
          requestBody =
            JObj ([(''prompt'', JStr (opt_prompt options)),
                   (''negative_prompt'', JStr (str_or (opt_negativePrompt options) [])),
                   (''width'', JNum width),
                   (''height'', JNum height),
                   (''num_images'', JNum (number_of_images options)),
                   (''steps'', JNum (Fin 30))]
                  @ (if str_truthy (opt_stableDiffusionAPIKey options)
                     then [(''key'', JStr (the (opt_stableDiffusionAPIKey options)))]
                     else []));
          headers =
            json_headers
            @ (if str_truthy (opt_stableDiffusionAPIKey options)
               then [(''Authorization'',
                      ''Bearer '' @ the (opt_stableDiffusionAPIKey options))]
               else [])
      in post endpoint headers requestBody)"

definition generateWithCustomStableDiffusion ::
  "env \<Rightarrow> ImageGenerationOptions \<Rightarrow> ImageGenerationResult io"
where
  "generateWithCustomStableDiffusion e options =
     catch_to_failure
       (if \<not> str_truthy (opt_stableDiffusionHost options) then
          io_throw (JsError ''Host URL is required for custom Stable Diffusion API'')
        else
          io_bind (fetch e (custom_request options))
            (\<lambda>response.
               if \<not> resp_ok response then
                 io_throw (JsError (''Custom Stable Diffusion API error: ''
                   @ resp_statusText response))
               else
                 io_bind (io_lift (resp_json response)) (\<lambda>data.
                 io_bind (io_lift (read_prop e data ''output'')) (\<lambda>_.
                   (case custom_response_image data of
                      InlineImage dataUrl \<Rightarrow>
                        io_bind (saveImageFromDataUrl e dataUrl (opt_sessionId options))
                          (\<lambda>localImageUrl. io_return (saved localImageUrl))
                    | ImageUrl imageUrl \<Rightarrow>
                        if \<not> truthy imageUrl then
                          io_throw (JsError ''No image URL found in custom API response'')
                        else
                          io_bind (saveImageFromUrl e imageUrl (opt_sessionId options))
                            (\<lambda>localImageUrl. io_return (saved localImageUrl)))))))"

text \<open>
  \<open>generateWithStableDiffusion\<close>: the provider defaults to \<open>local\<close>, and so does an
  unknown one. The adapters it returns never reject, so its own \<open>catch\<close> has nothing
  to catch.
\<close>

definition generateWithStableDiffusion ::
  "env \<Rightarrow> ImageGenerationOptions \<Rightarrow> ImageGenerationResult io"
where
  "generateWithStableDiffusion e options =
     catch_to_failure
       (let provider = str_or (opt_stableDiffusionProvider options) ''local''
        in if provider = ''local'' then generateWithLocalStableDiffusion e options
           else if provider = ''stablediffusionapi'' then generateWithStableDiffusionAPI e options
           else if provider = ''replicate'' then generateWithReplicate e options
           else if provider = ''custom'' then generateWithCustomStableDiffusion e options
           else generateWithLocalStableDiffusion e options)"

definition generateImage :: "env \<Rightarrow> ImageGenerationOptions \<Rightarrow> ImageGenerationResult io" where
  "generateImage e options =
     io_bind (initImageStorage e None)
       (\<lambda>_.
          (let fullPrompt = opt_prompt options
           in io_bind
                (if opt_model options = ''dall-e-3'' \<or> opt_model options = ''dall-e-2'' then
                   generateWithDalle e options
                 else if opt_model options = ''gpt-4o'' then generateWithGPT4o e options
                 else if opt_model options = ''stable-diffusion'' then
                   generateWithStableDiffusion e options
                 else io_return (failed (''Unsupported model: '' @ opt_model options)))
                (\<lambda>result.
                   io_return
                     (if res_success result then result\<lparr>res_fullPrompt := Some fullPrompt\<rparr>
                      else result))))"

section \<open>imageGeneration.ts: describing and refining an image\<close>

definition analysis_instructions :: "string \<Rightarrow> string" where
  "analysis_instructions p =
     nl
     @ ''You are an expert image analyst. Create a CONCISE but detailed description of this image for use as a reference by DALL-E.'' @ nl
     @ nl
     @ ''IMPORTANT: Your entire description MUST be under 1500 characters as it will be combined with other text, and the total must stay under 4000 characters.'' @ nl
     @ nl
     @ ''Describe the following in the most space-efficient way possible:'' @ nl
     @ ''1. PRIMARY SUBJECTS: Main subjects with positions (using top-left, center, bottom-right, etc.)'' @ nl
     @ ''2. SPATIAL RELATIONSHIPS: Key spatial relationships between elements'' @ nl
     @ ''3. COMPOSITION: Essential foreground, middle-ground, background elements'' @ nl
     @ ''4. LIGHTING & COLOR: Key lighting direction and dominant color palette'' @ nl
     @ ''5. STYLE: Be VERY specific about the rendering style (photorealistic, cartoon, oil painting, watercolor, sketch, etc.) and any distinctive visual techniques used'' @ nl
     @ ''6. MOOD/ATMOSPHERE: Overall feeling in 1-2 words'' @ nl
     @ nl
     @ ''BE SPECIFIC about positioning and style while keeping your description brief and focused. Avoid flowery language and unnecessary details.'' @ nl
     @ nl
     @ ''Original prompt: '' @ quoted p @ nl
     @ ''    ''"

definition image_load_error :: string where
  "image_load_error = ''Error loading image for analysis. Using original prompt as fallback.''"

text \<open>
  Loading the image for the analysis: \<open>Inr\<close> the data URL, or \<open>Inl\<close> the text that
  \<open>generateImageDescription\<close> returns at once when loading fails.
\<close>

definition load_image_for_analysis :: "env \<Rightarrow> string \<Rightarrow> (string + string) io" where
  "load_image_for_analysis e imageUrl =
     (if prefix ''file://'' imageUrl then
        io_catch
          (let filePath = replace_first ''file://'' [] imageUrl
           in io_bind (fetch e (get_request (JStr (''file://'' @ filePath))))
                (\<lambda>response. io_bind (io_lift (resp_blob response))
                   (\<lambda>base64Image. io_return (Inr base64Image))))
          (\<lambda>err. io_return (Inl image_load_error))
      else if prefix ''data:image'' imageUrl then io_return (Inr imageUrl)
      else
        io_catch
          (io_bind (fetch e (get_request (JStr imageUrl)))
             (\<lambda>response. io_bind (io_lift (resp_blob response))
                (\<lambda>base64Image. io_return (Inr base64Image))))
          (\<lambda>err. io_return (Inl image_load_error)))"

text \<open>
  \<open>generateImageDescription\<close>. The description is the \<open>content\<close> of the first choice;
  the API makes it a string, and a content of another type is represented by its text.
\<close>

definition generateImageDescription ::
  "env \<Rightarrow> string \<Rightarrow> string option \<Rightarrow> string option \<Rightarrow> string option \<Rightarrow> string io"
where
  "generateImageDescription e p imageUrl apiKey apiEndpoint =
     (if \<not> str_truthy imageUrl then
        io_return (''No image available for analysis. Original prompt was: '' @ quoted p)
      else if \<not> str_truthy apiKey then
        io_return ''Error: API key required for detailed image analysis.''
      else
        io_catch
          (let endpoint = str_or apiEndpoint ''https://api.openai.com/v1/chat/completions''
           in io_bind (load_image_for_analysis e (the imageUrl))
                (\<lambda>loaded.
                   case loaded of
                     Inl fallback \<Rightarrow> io_return fallback
                   | Inr base64Image \<Rightarrow>
                       (let requestBody =
                              JObj [(''model'', JStr ''gpt-4o''),
                                    (''messages'',
                                       JArr [JObj [(''role'', JStr ''user''),
                                                   (''content'',
                                                      JArr [JObj [(''type'', JStr ''text''),
                                                                  (''text'', JStr (analysis_instructions p))],
                                                            JObj [(''type'', JStr ''image_url''),
                                                                  (''image_url'',
                                                                     JObj [(''url'', JStr base64Image)])]])]]),
                                    (''max_tokens'', JNum (Fin 1500))]
                        in io_bind
                             (fetch e (post endpoint
                                (json_headers @ [(''Authorization'', ''Bearer '' @ the apiKey)])
                                requestBody))
                             (\<lambda>response.
                                if \<not> resp_ok response then
                                  io_bind (io_lift (resp_json response)) (\<lambda>errorData.
                                  io_bind (io_lift (read_prop e errorData ''error'')) (\<lambda>err.
                                    io_throw (JsError (''GPT-4 Vision API error: ''
                                      @ template_text e (json_or (opt_prop err ''message'')
                                                           (JStr (resp_statusText response)))))))
                                else
                                  io_bind (io_lift (resp_json response)) (\<lambda>data.
                                  io_bind (io_lift (read_prop e data ''choices'')) (\<lambda>choices.
                                    (let description =
                                           opt_prop (opt_prop (opt_index0 choices) ''message'') ''content''
                                     in if \<not> truthy description then
                                          io_throw (JsError
                                            ''No description returned from GPT-4 Vision API'')
                                        else io_return (template_text e description))))))))
          (\<lambda>err.
             io_return (''Failed to generate detailed image description. Using original prompt: ''
                        @ quoted p)))"

text \<open>
  The first step of \<open>refineImage\<close>: the options after the Vision API has been asked for
  a description, when there is none yet.
\<close>

definition describe_if_missing ::
  "env \<Rightarrow> string \<Rightarrow> string \<Rightarrow> ImageGenerationOptions \<Rightarrow> ImageGenerationOptions io"
where
  "describe_if_missing e originalPrompt refinementPrompt options =
     (if \<not> str_truthy (opt_imageDescription options) \<and> str_truthy (opt_imageUrl options)
         \<and> str_truthy (opt_apiKey options)
         \<and> \<not> str_includes refinementPrompt ''## REFERENCE IMAGE ANALYSIS''
      then
        io_catch
          (io_bind
             (generateImageDescription e originalPrompt (opt_imageUrl options) (opt_apiKey options)
                (if str_truthy (opt_apiEndpoint options)
                 then Some (replace_first ''/v1/images/generations'' ''/v1/chat/completions''
                              (the (opt_apiEndpoint options)))
                 else None))
             (\<lambda>imageDescription.
                io_return (options\<lparr>opt_imageDescription := Some imageDescription\<rparr>)))
          (\<lambda>err. io_return options)
      else io_return options)"

text \<open>
  \<open>refineImage\<close>. Its last argument is the reference of an annotation array, or
  \<open>undefined\<close>. The spatial step writes on the annotation objects of that array (the
  phrase it caches in \<open>spatialReference\<close>, and \<open>normalizedCoordinates\<close>), so the array
  is left changed in the state, also when the generation that follows throws.
\<close>

definition refineImage ::
  "env \<Rightarrow> string \<Rightarrow> string \<Rightarrow> ImageGenerationOptions \<Rightarrow> nat option
   \<Rightarrow> ImageGenerationResult io"
where
  "refineImage e originalPrompt refinementPrompt options annotations =
     io_bind (describe_if_missing e originalPrompt refinementPrompt options)
       (\<lambda>options1 w.
          (let (spatialRefinementPrompt, annotations') =
                 spatial_refinement (times100 e) originalPrompt refinementPrompt
                   (opt_imageDescription options1) (opt_size options1)
                   (map_option (arrays w) annotations);
               w1 = (case annotations of
                       None \<Rightarrow> w
                     | Some r \<Rightarrow> w\<lparr>arrays := (arrays w)(r := the annotations')\<rparr>);
               (combinedPrompt, imageDescription') =
                 truncate_combined originalPrompt spatialRefinementPrompt
                   (opt_imageDescription options1);
               options2 = options1\<lparr>opt_imageDescription := imageDescription',
                                   opt_prompt := combinedPrompt\<rparr>
           in io_bind
                (generateImage e
                   (options2\<lparr>opt_prompt := combinedPrompt,
                             opt_uploadPreviousImage :=
                               (if opt_model options2 = ''gpt-4o'' then Some True
                                else opt_uploadPreviousImage options2)\<rparr>))
                (\<lambda>result.
                   io_return
                     (if res_success result then result\<lparr>res_fullPrompt := Some combinedPrompt\<rparr>
                      else result))
                w1))"

section \<open>The message list: sessions and the reroll handler\<close>

text \<open>
  A message with the fields that the handlers read or write (prefix \<open>msg_\<close>); the
  spread \<open>{...message}\<close> copies every field. \<open>msg_annotations\<close> is the reference of the
  annotation array, which the copy of a message shares with the message.
\<close>

record message =
  msg_id :: string
  msg_role :: string
  msg_content :: string
  msg_generating :: "bool option"
  msg_imageUrl :: "string option"
  msg_originalPrompt :: "string option"
  msg_refinementPrompt :: "string option"
  msg_imageDescription :: "string option"
  msg_fullPrompt :: "string option"
  msg_annotations :: "nat option"
  msg_history :: "string list option"
  msg_isReroll :: "bool option"
  msg_errorCode :: "nat option"
  msg_error :: "string option"
  msg_wordCount :: "nat option"
  msg_tokenCount :: "nat option"
  msg_timestamp :: "nat option"

record session =
  ses_id :: string
  ses_name :: string
  ses_messages :: "message list"

record settings =
  set_imageSize :: string
  set_imageGenerationModel :: string
  set_openaiKey :: "string option"
  set_apiHost :: "string option"
  set_stableDiffusionHost :: "string option"
  set_stableDiffusionProvider :: "string option"
  set_stableDiffusionAPIKey :: "string option"
  set_imageStyle :: "string option"
  set_imageQuality :: "string option"

text \<open>
  What the handlers use besides the generation environment: the UUIDs and the clock of
  the renderer (indexed by the number of calls so far), the two counters that
  \<open>insertMessage\<close> calls (\<open>countWord\<close>, \<open>estimateTokensFromMessages\<close>, which are not
  in the sources at hand), and the default system prompt of a new session.
\<close>

record app_env =
  gen_env :: env
  app_uuid :: "nat \<Rightarrow> string"
  app_clock :: "nat \<Rightarrow> nat"
  countWord :: "string \<Rightarrow> nat"
  estimateTokens :: "message \<Rightarrow> nat"
  defaultPrompt :: string

text \<open>The store (\<open>sessionsAtom\<close>), the outside world, and how often UUIDs and the clock were read.\<close>

record app_state =
  io_world :: world
  sessions :: "session list"
  uuid_calls :: nat
  clock_calls :: nat

definition blank_message :: "string \<Rightarrow> string \<Rightarrow> string \<Rightarrow> message" where
  "blank_message ident role content =
     \<lparr>msg_id = ident, msg_role = role, msg_content = content, msg_generating = None,
      msg_imageUrl = None, msg_originalPrompt = None, msg_refinementPrompt = None,
      msg_imageDescription = None, msg_fullPrompt = None, msg_annotations = None,
      msg_history = None, msg_isReroll = None, msg_errorCode = None, msg_error = None,
      msg_wordCount = None, msg_tokenCount = None, msg_timestamp = None\<rparr>"

definition next_uuid :: "app_env \<Rightarrow> app_state \<Rightarrow> string \<times> app_state" where
  "next_uuid ae st = (app_uuid ae (uuid_calls st), st\<lparr>uuid_calls := uuid_calls st + 1\<rparr>)"

definition next_time :: "app_env \<Rightarrow> app_state \<Rightarrow> nat \<times> app_state" where
  "next_time ae st = (app_clock ae (clock_calls st), st\<lparr>clock_calls := clock_calls st + 1\<rparr>)"

text \<open>\<open>initEmptyChatSession\<close>, followed by the assignment \<open>newSession.id = sessionId\<close>.\<close>

definition new_session_with_id :: "app_env \<Rightarrow> string \<Rightarrow> app_state \<Rightarrow> session \<times> app_state" where
  "new_session_with_id ae sessionId st =
     (let (_, st1) = next_uuid ae st;
          (mid, st2) = next_uuid ae st1
      in (\<lparr>ses_id = sessionId, ses_name = ''Untitled'',
           ses_messages = [blank_message mid ''system'' (defaultPrompt ae)]\<rparr>, st2))"

definition ensureSessionExists :: "app_env \<Rightarrow> string \<Rightarrow> app_state \<Rightarrow> app_state" where
  "ensureSessionExists ae sessionId st =
     (if \<exists>s \<in> set (sessions st). ses_id s = sessionId then st
      else (let (newSession, st1) = new_session_with_id ae sessionId st
            in st1\<lparr>sessions := sessions st1 @ [newSession]\<rparr>))"

text \<open>
  \<open>insertMessage\<close> sets the two counts on the message it is given, so it returns that
  message besides the new state. The store always holds an array of sessions.
\<close>

definition insertMessage :: "app_env \<Rightarrow> string \<Rightarrow> message \<Rightarrow> app_state \<Rightarrow> message \<times> app_state" where
  "insertMessage ae sessionId msg st =
     (let msg1 = msg\<lparr>msg_wordCount := Some (countWord ae (msg_content msg))\<rparr>;
          msg2 = msg1\<lparr>msg_tokenCount := Some (estimateTokens ae msg1)\<rparr>;
          st1 = ensureSessionExists ae sessionId st
      in if \<not> (\<exists>s \<in> set (sessions st1). ses_id s = sessionId) then
           (let (newSession, st2) = new_session_with_id ae sessionId st1
            in (msg2,
                st2\<lparr>sessions := sessions st2
                       @ [newSession\<lparr>ses_messages := ses_messages newSession @ [msg2]\<rparr>]\<rparr>))
         else
           (msg2,
            st1\<lparr>sessions :=
                  map (\<lambda>s. if ses_id s = sessionId
                           then s\<lparr>ses_messages := ses_messages s @ [msg2]\<rparr> else s)
                      (sessions st1)\<rparr>))"

text \<open>The inner \<open>handle\<close> of \<open>modifyMessage\<close>: replace by identifier, or append.\<close>

definition replace_message :: "message \<Rightarrow> message list \<Rightarrow> message list" where
  "replace_message updated msgs =
     (if \<exists>m \<in> set msgs. msg_id m = msg_id updated
      then map (\<lambda>m. if msg_id m = msg_id updated then updated else m) msgs
      else msgs @ [updated])"

definition modifyMessage :: "app_env \<Rightarrow> string \<Rightarrow> message \<Rightarrow> app_state \<Rightarrow> message \<times> app_state" where
  "modifyMessage ae sessionId updated0 st0 =
     (let (t, st) = next_time ae st0;
          updated = updated0\<lparr>msg_timestamp := Some t\<rparr>;
          st1 = ensureSessionExists ae sessionId st
      in if \<not> (\<exists>s \<in> set (sessions st1). ses_id s = sessionId) then
           (let (newSession, st2) = new_session_with_id ae sessionId st1
            in (updated,
                st2\<lparr>sessions := sessions st2
                       @ [newSession\<lparr>ses_messages := ses_messages newSession @ [updated]\<rparr>]\<rparr>))
         else
           (updated,
            st1\<lparr>sessions :=
                  map (\<lambda>s. if ses_id s \<noteq> sessionId then s
                           else s\<lparr>ses_messages := replace_message updated (ses_messages s)\<rparr>)
                      (sessions st1)\<rparr>))"

text \<open>The game die that opens the reroll notice, as the bytes of its UTF-8 form.\<close>

definition dice :: string where
  "dice = [CHR 0xF0, CHR 0x9F, CHR 0x8E, CHR 0xB2]"

text \<open>The history of the rerolled message, from the message that is rerolled.\<close>

definition nonblank :: "string \<Rightarrow> bool" where
  "nonblank url \<longleftrightarrow> url \<noteq> [] \<and> trim url \<noteq> []"

definition reroll_history :: "message \<Rightarrow> string list option" where
  "reroll_history m =
     (case msg_history m of
        Some h \<Rightarrow>
          if str_truthy (msg_imageUrl m) then Some (filter nonblank h @ [the (msg_imageUrl m)])
          else Some (filter nonblank h)
      | None \<Rightarrow>
          if str_truthy (msg_imageUrl m) then Some [the (msg_imageUrl m)]
          else msg_history m)"

text \<open>The refinement text that a reroll of a refined image passes to \<open>refineImage\<close>.\<close>

definition enhancedRefinementPrompt :: "message \<Rightarrow> string" where
  "enhancedRefinementPrompt m =
     (if str_truthy (msg_imageDescription m) then
        ''## REFERENCE IMAGE ANALYSIS'' @ nl @ the (msg_imageDescription m) @ nl @ nl
          @ the (msg_refinementPrompt m)
      else the (msg_refinementPrompt m))"

definition settings_options :: "settings \<Rightarrow> string \<Rightarrow> message \<Rightarrow> ImageGenerationOptions" where
  "settings_options s sessionId m =
     \<lparr>opt_prompt = str_or (msg_originalPrompt m) ''An image'',
      opt_size = set_imageSize s,
      opt_model = set_imageGenerationModel s,
      opt_apiKey = set_openaiKey s,
      opt_apiEndpoint =
        (if str_truthy (set_apiHost s) then Some (the (set_apiHost s) @ ''/v1/images/generations'')
         else None),
      opt_stableDiffusionHost = set_stableDiffusionHost s,
      opt_stableDiffusionProvider = set_stableDiffusionProvider s,
      opt_stableDiffusionAPIKey = set_stableDiffusionAPIKey s,
      opt_sessionId = sessionId,
      opt_negativePrompt = None,
      opt_numberOfImages = None,
      opt_style = (if str_truthy (set_imageStyle s) then set_imageStyle s else None),
      opt_quality = (if str_truthy (set_imageQuality s) then set_imageQuality s else None),
      opt_imageDescription = None,
      opt_imageUrl = None,
      opt_uploadPreviousImage = None\<rparr>"

text \<open>
  The generation call of the reroll: the refinement process for a refined image. The
  image dimensions that the handler computes from the settings before it are not used.
\<close>

definition reroll_generation ::
  "env \<Rightarrow> settings \<Rightarrow> string \<Rightarrow> message \<Rightarrow> ImageGenerationResult io"
where
  "reroll_generation e s sessionId m =
     (if str_truthy (msg_refinementPrompt m) then
        refineImage e (str_or (msg_originalPrompt m) ''An image'') (enhancedRefinementPrompt m)
          ((settings_options s sessionId m)
             \<lparr>opt_imageDescription := msg_imageDescription m, opt_imageUrl := msg_imageUrl m\<rparr>)
          (msg_annotations m)
      else generateImage e (settings_options s sessionId m))"

definition handleRerollImage ::
  "app_env \<Rightarrow> settings \<Rightarrow> string \<Rightarrow> message \<Rightarrow> app_state \<Rightarrow> app_state"
where
  "handleRerollImage ae s currentSessionId m st =
     (let isRefinedImage = str_truthy (msg_refinementPrompt m);
          promptToUse =
            (if isRefinedImage then Some (template_opt (msg_originalPrompt m) @ '' (with refinements)'')
             else msg_originalPrompt m)
      in if \<not> str_truthy promptToUse then st
         else
           (let (id1, st1) = next_uuid ae st;
                (t1, st2) = next_time ae st1;
                rerollTextMessage =
                  (blank_message id1 ''user''
                     (dice @ '' Rerolling image with'' @ (if isRefinedImage then '' refined'' else [])
                        @ '' prompt: '' @ quoted (the promptToUse)))
                    \<lparr>msg_timestamp := Some t1\<rparr>;
                (_, st3) = insertMessage ae currentSessionId rerollTextMessage st2;
                (id2, st4) = next_uuid ae st3;
                rerolled0 =
                  m\<lparr>msg_id := id2, msg_generating := Some True, msg_imageUrl := None,
                    msg_isReroll := Some True, msg_history := reroll_history m\<rparr>;
                (rerolled, st5) = insertMessage ae currentSessionId rerolled0 st4
            in case reroll_generation (gen_env ae) s currentSessionId m (io_world st5) of
                 (Inr result, w) \<Rightarrow>
                   if res_success result then
                     snd (modifyMessage ae currentSessionId
                            (rerolled\<lparr>msg_generating := Some False,
                                      msg_imageUrl := Some (res_imageUrl result),
                                      msg_fullPrompt := res_fullPrompt result,
                                      msg_imageDescription :=
                                        (if \<not> str_truthy (msg_imageDescription rerolled)
                                            \<and> str_truthy (msg_imageDescription m)
                                         then msg_imageDescription m
                                         else msg_imageDescription rerolled)\<rparr>)
                            (st5\<lparr>io_world := w\<rparr>))
                   else
                     snd (modifyMessage ae currentSessionId
                            (rerolled\<lparr>msg_generating := Some False,
                                      msg_error := res_error result,
                                      msg_errorCode := Some 500\<rparr>)
                            (st5\<lparr>io_world := w\<rparr>))
               | (Inl err, w) \<Rightarrow>
                   (let (id3, st6) = next_uuid ae (st5\<lparr>io_world := w\<rparr>);
                        (t3, st7) = next_time ae st6;
                        errorMessage =
                          (blank_message id3 ''system''
                             (''Error rerolling image: '' @ error_message err))
                            \<lparr>msg_timestamp := Some t3, msg_error := Some (error_message err),
                             msg_errorCode := Some 500\<rparr>
                    in snd (insertMessage ae currentSessionId errorMessage st7))))"

section \<open>Predicates and fixtures for the properties\<close>

text \<open>A result is well formed: a success, or a failure that carries a message.\<close>

definition well_formed :: "ImageGenerationResult \<Rightarrow> bool" where
  "well_formed r \<longleftrightarrow> (res_success r \<or> res_error r \<noteq> None)"

text \<open>An action never throws and returns only well-formed results.\<close>

definition total_wf :: "ImageGenerationResult io \<Rightarrow> bool" where
  "total_wf m \<longleftrightarrow> (\<forall>w. \<exists>r w'. m w = (Inr r, w') \<and> well_formed r)"

definition yields_wf :: "ImageGenerationResult io \<Rightarrow> bool" where
  "yields_wf m \<longleftrightarrow> (\<forall>w r w'. m w = (Inr r, w') \<longrightarrow> well_formed r)"

text \<open>
  Fixtures for the concrete runs: an environment without network in which every platform
  call succeeds, a world in which nothing has happened yet, and a request for DALL-E 3.
\<close>

definition quiet_env :: env where
  "quiet_env =
     \<lparr>net = (\<lambda>n req. Inl (JsError ''Failed to fetch'')),
      user_data_path = (\<lambda>n. Inr ''/data''),
      file_ok = (\<lambda>n call. True),
      now = (\<lambda>n. 1700000000000),
      uuidv4 = (\<lambda>n. ''123e4567-e89b-12d3-a456-426614174000''),
      random1000 = (\<lambda>n. 7),
      to_text = (\<lambda>v. ''[object Object]''),
      stringify = (\<lambda>v. ''{}''),
      parse_url = (\<lambda>s. None),
      type_error_text =
        (\<lambda>v name. ''Cannot read properties of '' @ (if v = JNull then ''null'' else ''undefined'')
           @ '' (reading '' @ [CHR 0x27] @ name @ [CHR 0x27] @ '')''),
      times100 = (\<lambda>r. r * 100)\<rparr>"

definition fresh_world :: world where
  "fresh_world =
     \<lparr>baseImageDir = None, fetch_log = [], ipc_log = [], sleep_log = [], arrays = (\<lambda>r. [])\<rparr>"

definition sample_options :: ImageGenerationOptions where
  "sample_options =
     \<lparr>opt_prompt = ''a red fox'', opt_size = ''1024x1024'', opt_model = ''dall-e-3'',
      opt_apiKey = Some ''sk-test'', opt_apiEndpoint = None, opt_stableDiffusionHost = None,
      opt_stableDiffusionProvider = None, opt_stableDiffusionAPIKey = None,
      opt_sessionId = ''s1'', opt_negativePrompt = None, opt_numberOfImages = None,
      opt_style = None, opt_quality = None, opt_imageDescription = None, opt_imageUrl = None,
      opt_uploadPreviousImage = None\<rparr>"

text \<open>A response that is \<open>ok\<close> and carries a JSON body.\<close>

definition ok_json :: "json \<Rightarrow> response" where
  "ok_json body =
     \<lparr>resp_ok = True, resp_statusText = ''OK'', resp_json = Inr body,
      resp_blob = Inl (JsError ''not an image'')\<rparr>"


text \<open>
  A provider that answers every request with an image URL, on a platform where the
  download of a remote image fails (the handler of \<open>downloadImage\<close> returns \<open>false\<close>)
  and everything else succeeds.
\<close>

definition download_fails :: env where
  "download_fails =
     quiet_env
       \<lparr>net := (\<lambda>n req. Inr (ok_json
                 (JObj [(''data'', JArr [JObj [(''url'', JStr ''https://provider.example/tmp/img.png'')]])]))),
        file_ok := (\<lambda>n call. case call of DownloadImage u p \<Rightarrow> False | _ \<Rightarrow> True)\<rparr>"







definition ready_world :: world where
  "ready_world =
     \<lparr>baseImageDir = Some ''/data/images'', fetch_log = [],
      ipc_log = [GetAppDataDir, EnsureDirectory ''/data/images''], sleep_log = [],
      arrays = (\<lambda>r. [])\<rparr>"

section \<open>Polling the Replicate prediction\<close>

text \<open>The network answers request \<open>req\<close>, as its \<open>n\<close>-th, with a response whose JSON is \<open>body\<close>.\<close>

definition answers :: "env \<Rightarrow> nat \<Rightarrow> request \<Rightarrow> json \<Rightarrow> bool" where
  "answers e n req body \<longleftrightarrow> (\<exists>r. net e n req = Inr r \<and> resp_json r = Inr body)"

text \<open>A poll result that neither ends the loop nor throws: its status is neither final value.\<close>

definition pending :: "json \<Rightarrow> bool" where
  "pending body \<longleftrightarrow>
     \<not> nullish body \<and> own_prop body ''status'' \<noteq> JStr ''succeeded''
     \<and> own_prop body ''status'' \<noteq> JStr ''failed''"

text \<open>The world after \<open>k\<close> polls that were each followed by the wait.\<close>

definition polled_world :: "string \<Rightarrow> json \<Rightarrow> nat \<Rightarrow> world \<Rightarrow> world" where
  "polled_world key predictionUrl k w =
     w\<lparr>fetch_log := fetch_log w @ replicate k (poll_request key predictionUrl),
       sleep_log := sleep_log w @ replicate k 2000\<rparr>"

text \<open>
  Fixtures: options that select the Replicate provider, the answer to the start
  request, a poll answer that is still in progress and one that has succeeded; a
  network whose polls are in progress five times and then succeed, and one whose polls
  never leave the state in progress.
\<close>

definition replicate_options :: ImageGenerationOptions where
  "replicate_options =
     sample_options
       \<lparr>opt_model := ''stable-diffusion'', opt_stableDiffusionProvider := Some ''replicate'',
        opt_stableDiffusionAPIKey := Some ''r8_key''\<rparr>"

definition started :: json where
  "started = JObj [(''urls'', JObj [(''get'', JStr ''https://api.replicate.com/v1/predictions/p1'')])]"

definition processing :: json where
  "processing = JObj [(''status'', JStr ''processing'')]"

definition finished :: json where
  "finished =
     JObj [(''status'', JStr ''succeeded''),
           (''output'', JArr [JStr ''https://replicate.delivery/out.png''])]"

definition five_then_done :: env where
  "five_then_done =
     quiet_env
       \<lparr>net := (\<lambda>n req. if n = 0 then Inr (ok_json started)
                         else if n \<le> 5 then Inr (ok_json processing)
                         else Inr (ok_json finished))\<rparr>"

definition never_done :: env where
  "never_done =
     quiet_env
       \<lparr>net := (\<lambda>n req. if n = 0 then Inr (ok_json started) else Inr (ok_json processing))\<rparr>"

section \<open>The store after a reroll\<close>

text \<open>The message as \<open>insertMessage\<close> stores it: with its word and token counts.\<close>

definition counted :: "app_env \<Rightarrow> message \<Rightarrow> message" where
  "counted ae msg =
     (let msg1 = msg\<lparr>msg_wordCount := Some (countWord ae (msg_content msg))\<rparr>
      in msg1\<lparr>msg_tokenCount := Some (estimateTokens ae msg1)\<rparr>)"

text \<open>The sessions with the messages \<open>extra\<close> appended to every session named \<open>sessionId\<close>.\<close>

definition appended :: "string \<Rightarrow> message list \<Rightarrow> session list \<Rightarrow> session list" where
  "appended sessionId extra ss =
     map (\<lambda>s. if ses_id s = sessionId then s\<lparr>ses_messages := ses_messages s @ extra\<rparr> else s) ss"

text \<open>
  Fixtures: a renderer whose UUIDs are all different, a refined image B whose history
  is the image A, the same entry with a blank history item, and a store that holds B.
\<close>

definition reroll_env :: app_env where
  "reroll_env =
     \<lparr>gen_env = quiet_env,
      app_uuid = (\<lambda>n. ''uuid-'' @ replicate n (CHR ''x'')),
      app_clock = (\<lambda>n. 1700000000000 + n),
      countWord = (\<lambda>s. length s),
      estimateTokens = (\<lambda>m. length (msg_content m)),
      defaultPrompt = ''You are a helpful assistant.''\<rparr>"

definition reroll_settings :: settings where
  "reroll_settings =
     \<lparr>set_imageSize = ''1024x1024'', set_imageGenerationModel = ''dall-e-3'',
      set_openaiKey = Some ''sk-test'', set_apiHost = None, set_stableDiffusionHost = None,
      set_stableDiffusionProvider = None, set_stableDiffusionAPIKey = None,
      set_imageStyle = None, set_imageQuality = None\<rparr>"

definition refined_entry :: message where
  "refined_entry =
     (blank_message ''b'' ''assistant'' [])
       \<lparr>msg_imageUrl := Some ''file:///data/images/s1/b.png'',
        msg_originalPrompt := Some ''a red fox'',
        msg_refinementPrompt := Some ''make the sky darker'',
        msg_imageDescription := Some ''A fox in snow.'',
        msg_history := Some [''file:///data/images/s1/a.png'']\<rparr>"

definition gapped_entry :: message where
  "gapped_entry = refined_entry\<lparr>msg_history := Some ['' '', ''file:///data/images/s1/a.png'']\<rparr>"

definition store_with :: "message \<Rightarrow> app_state" where
  "store_with m =
     \<lparr>io_world = ready_world,
      sessions = [\<lparr>ses_id = ''s1'', ses_name = ''Untitled'', ses_messages = [m]\<rparr>],
      uuid_calls = 0, clock_calls = 0\<rparr>"

text \<open>
  A network whose polls are in progress five times and then report \<open>succeeded\<close> with an
  empty output list.
\<close>

definition finished_empty :: json where
  "finished_empty = JObj [(''status'', JStr ''succeeded''), (''output'', JArr [])]"

definition five_then_empty :: env where
  "five_then_empty =
     quiet_env
       \<lparr>net := (\<lambda>n req. if n = 0 then Inr (ok_json started)
                         else if n \<le> 5 then Inr (ok_json processing)
                         else Inr (ok_json finished_empty))\<rparr>"

section \<open>Properties of getFileUrl\<close>

lemma getFileUrl_with_url:
  "prefix ''http://'' p \<or> prefix ''https://'' p \<or> prefix ''file://'' p
   \<Longrightarrow> getFileUrl_with enc p = p"
  by (simp add: getFileUrl_with_def)

lemma getFileUrl_with_path:
  "\<not> (prefix ''http://'' p \<or> prefix ''https://'' p \<or> prefix ''file://'' p)
   \<Longrightarrow> prefix ''file://'' (getFileUrl_with enc p)"
  by (simp add: getFileUrl_with_def Let_def split: sum.splits)

text \<open>
  C10. An input that already begins with \<open>http://\<close>, \<open>https://\<close> or \<open>file://\<close> is
  returned unchanged, every other input yields a string that begins with \<open>file://\<close>,
  and therefore \<open>getFileUrl\<close> is idempotent. This holds for every behaviour of
  \<open>encodeURIComponent\<close>, including the one that throws.
\<close>

theorem getFileUrl_idempotent:
  "(prefix ''http://'' p \<or> prefix ''https://'' p \<or> prefix ''file://'' p
      \<longrightarrow> getFileUrl_with enc p = p)
   \<and> (\<not> (prefix ''http://'' p \<or> prefix ''https://'' p \<or> prefix ''file://'' p)
      \<longrightarrow> prefix ''file://'' (getFileUrl_with enc p))
   \<and> getFileUrl_with enc (getFileUrl_with enc p) = getFileUrl_with enc p"
proof (cases "prefix ''http://'' p \<or> prefix ''https://'' p \<or> prefix ''file://'' p")
  case True
  then show ?thesis by (simp add: getFileUrl_with_url)
next
  case False
  then have "prefix ''file://'' (getFileUrl_with enc p)"
    by (rule getFileUrl_with_path)
  then have "getFileUrl_with enc (getFileUrl_with enc p) = getFileUrl_with enc p"
    by (simp add: getFileUrl_with_url)
  with False \<open>prefix ''file://'' (getFileUrl_with enc p)\<close> show ?thesis by simp
qed

theorem getFileUrl_idempotent_witness:
  "getFileUrl ''https://host/a.png'' = ''https://host/a.png''
   \<and> getFileUrl (''C:'' @ [CHR 0x5C] @ ''img/a b.png'') = ''file:///C%3A/img/a%20b.png''
   \<and> getFileUrl (getFileUrl (''C:'' @ [CHR 0x5C] @ ''img/a b.png''))
       = getFileUrl (''C:'' @ [CHR 0x5C] @ ''img/a b.png'')"
proof -
  have computed: "getFileUrl (''C:'' @ [CHR 0x5C] @ ''img/a b.png'') = ''file:///C%3A/img/a%20b.png''"
    by code_simp
  have url: "prefix ''http://'' ''https://host/a.png'' \<or> prefix ''https://'' ''https://host/a.png''
             \<or> prefix ''file://'' ''https://host/a.png''"
    by simp
  from url getFileUrl_idempotent [of "''https://host/a.png''" encodeURIComponent]
  have "getFileUrl ''https://host/a.png'' = ''https://host/a.png''"
    by (simp only: getFileUrl_def)
  moreover from getFileUrl_idempotent [of "''C:'' @ [CHR 0x5C] @ ''img/a b.png''" encodeURIComponent]
  have "getFileUrl (getFileUrl (''C:'' @ [CHR 0x5C] @ ''img/a b.png''))
        = getFileUrl (''C:'' @ [CHR 0x5C] @ ''img/a b.png'')"
    by (simp only: getFileUrl_def)
  ultimately show ?thesis using computed by simp
qed

section \<open>Properties of the spatial description\<close>

lemma clamp01_Fin: "clamp01 (Fin v) = Fin (max 0 (min 1 v))"
  by (simp add: clamp01_def Math_min_def Math_max_def max_def min_def)

lemma spatial_phrase_nonempty: "spatial_phrase t100 ty c \<noteq> []"
  by (cases ty) (simp_all add: spatial_phrase_def Let_def)

lemma clamp_mono:
  fixes u v :: real
  shows "u \<le> v \<Longrightarrow> max 0 (min 1 u) \<le> max 0 (min 1 v)"
  by (simp add: max_def min_def)

lemma unit_size_phrase_empty:
  "normalizedCoordinates b = None
   \<Longrightarrow> fst (generateSpatialDescription t100 b (Fin 1) (Fin 1)) = []"
  by (simp add: generateSpatialDescription_def)

text \<open>
  Claim C5, as the code has it. For a rectangle annotation with four finite raw
  coordinates \<open>[x, y, width, height]\<close>, no region yet, and positive image dimensions
  \<open>W\<close>, \<open>H\<close> that are not both 1, \<open>generateSpatialDescription\<close> does not fail and
  returns a non-empty phrase. The phrase is computed from the four quotients \<open>x / W\<close>,
  \<open>y / H\<close>, \<open>(x + width) / W\<close>, \<open>(y + height) / H\<close> clamped into \<open>[0, 1]\<close>: a raw
  point outside the canvas is clamped, not rejected. The clamped bounds are ordered
  (\<open>x1 \<le> x2\<close>, \<open>y1 \<le> y2\<close>) when the raw width and height are not negative. With the
  dimensions 1x1 and no region on the annotation the phrase is empty, for every
  annotation.
\<close>

theorem rectangle_description_clamped:
  assumes "coordinates a = [Fin x, Fin y, Fin w, Fin h]"
    and "ann_type a = Rectangle"
    and "normalizedCoordinates a = None"
    and "0 < W" and "0 < H"
  shows "let clamped = \<lparr>x1 = Fin (max 0 (min 1 (x / W))), y1 = Fin (max 0 (min 1 (y / H))),
                         x2 = Fin (max 0 (min 1 ((x + w) / W))),
                         y2 = Fin (max 0 (min 1 ((y + h) / H)))\<rparr>
         in (\<not> (W = 1 \<and> H = 1)
               \<longrightarrow> fst (generateSpatialDescription t100 a (Fin W) (Fin H))
                     = spatial_phrase t100 Rectangle clamped
                   \<and> fst (generateSpatialDescription t100 a (Fin W) (Fin H)) \<noteq> [])
            \<and> (W = 1 \<and> H = 1 \<longrightarrow> fst (generateSpatialDescription t100 a (Fin W) (Fin H)) = [])
            \<and> (\<forall>b. normalizedCoordinates b = None
                   \<longrightarrow> fst (generateSpatialDescription t100 b (Fin 1) (Fin 1)) = [])
            \<and> num_le (Fin 0) (x1 clamped) \<and> num_le (x1 clamped) (Fin 1)
            \<and> num_le (Fin 0) (y1 clamped) \<and> num_le (y1 clamped) (Fin 1)
            \<and> num_le (Fin 0) (x2 clamped) \<and> num_le (x2 clamped) (Fin 1)
            \<and> num_le (Fin 0) (y2 clamped) \<and> num_le (y2 clamped) (Fin 1)
            \<and> (0 \<le> w \<longrightarrow> num_le (x1 clamped) (x2 clamped))
            \<and> (0 \<le> h \<longrightarrow> num_le (y1 clamped) (y2 clamped))"
proof -
  let ?raw = "\<lparr>x1 = Fin (x / W), y1 = Fin (y / H),
                x2 = Fin ((x + w) / W), y2 = Fin ((y + h) / H)\<rparr>"
  let ?clamped = "\<lparr>x1 = Fin (max 0 (min 1 (x / W))), y1 = Fin (max 0 (min 1 (y / H))),
                    x2 = Fin (max 0 (min 1 ((x + w) / W))),
                    y2 = Fin (max 0 (min 1 ((y + h) / H)))\<rparr>"
  have norm: "normalizeRectangleCoordinates (coordinates a) (Fin W) (Fin H) = ?raw"
    using assms by (simp add: normalizeRectangleCoordinates_def coord_at_def)
  have clamp: "clampCoords ?raw = ?clamped"
    by (simp add: clampCoords_def clamp01_Fin)
  have gen: "fst (generateSpatialDescription t100 a (Fin W) (Fin H))
      = spatial_phrase t100 Rectangle ?clamped"
    if "\<not> (W = 1 \<and> H = 1)"
    using assms(2,3) that unfolding generateSpatialDescription_def norm
    by (auto simp add: Let_def clamp)
  have unit: "fst (generateSpatialDescription t100 a (Fin W) (Fin H)) = []" if "W = 1 \<and> H = 1"
    using assms(3) that by (simp add: unit_size_phrase_empty)
  have mono_x: "0 \<le> w \<longrightarrow> max 0 (min 1 (x / W)) \<le> max 0 (min 1 ((x + w) / W))"
    using \<open>0 < W\<close> by (intro impI clamp_mono) (simp add: divide_right_mono)
  have mono_y: "0 \<le> h \<longrightarrow> max 0 (min 1 (y / H)) \<le> max 0 (min 1 ((y + h) / H))"
    using \<open>0 < H\<close> by (intro impI clamp_mono) (simp add: divide_right_mono)
  show ?thesis
    unfolding Let_def
    using gen unit mono_x mono_y spatial_phrase_nonempty [of t100 Rectangle ?clamped]
      unit_size_phrase_empty [of _ t100]
    by simp
qed

text \<open>
  The theorem at a rectangle that starts 10 pixels left of a 100x100 image: the phrase is
  the one of the bounds clamped to the image.
\<close>

theorem rectangle_description_clamped_witness:
  "fst (generateSpatialDescription (\<lambda>r. r * 100)
       \<lparr>ann_id = ''a1'', ann_type = Rectangle,
        coordinates = [Fin (- 10), Fin 0, Fin 20, Fin 20], feedback = ''brighter'',
        normalizedCoordinates = None, spatialReference = None\<rparr> (Fin 100) (Fin 100))
     = spatial_phrase (\<lambda>r. r * 100) Rectangle
         \<lparr>x1 = Fin 0, y1 = Fin 0, x2 = Fin (1 / 10), y2 = Fin (1 / 5)\<rparr>
   \<and> fst (generateSpatialDescription (\<lambda>r. r * 100)
       \<lparr>ann_id = ''a1'', ann_type = Rectangle,
        coordinates = [Fin (- 10), Fin 0, Fin 20, Fin 20], feedback = ''brighter'',
        normalizedCoordinates = None, spatialReference = None\<rparr> (Fin 100) (Fin 100)) \<noteq> []"
  using rectangle_description_clamped
    [of "\<lparr>ann_id = ''a1'', ann_type = Rectangle,
          coordinates = [Fin (- 10), Fin 0, Fin 20, Fin 20], feedback = ''brighter'',
          normalizedCoordinates = None, spatialReference = None\<rparr>" "- 10" 0 20 20 100 100
        "\<lambda>r. r * 100"]
  by (simp add: Let_def spatial_phrase_nonempty)

text \<open>
  The claim as stated fails on the phrase: with the positive dimensions 1x1 and a
  rectangle that has no region yet, the phrase is empty.
\<close>

theorem rectangle_phrase_empty_at_unit_size:
  "fst (generateSpatialDescription (\<lambda>r. r * 100)
       \<lparr>ann_id = ''a2'', ann_type = Rectangle,
        coordinates = [Fin 0, Fin 0, Fin 1, Fin 1], feedback = ''brighter'',
        normalizedCoordinates = None, spatialReference = None\<rparr> (Fin 1) (Fin 1)) = []"
  by (simp add: generateSpatialDescription_def)

section \<open>Properties of the grid label\<close>

lemma find_section_first:
  "i < length G \<Longrightarrow> in_section (snd (G ! i)) cx cy
   \<Longrightarrow> (\<forall>j<i. \<not> in_section (snd (G ! j)) cx cy)
   \<Longrightarrow> find_section G cx cy = fst (G ! i)"
proof (induction G arbitrary: i)
  case Nil
  then show ?case by simp
next
  case (Cons p G)
  obtain n s where p: "p = (n, s)" by (cases p)
  show ?case
  proof (cases i)
    case 0
    with Cons.prems p show ?thesis by simp
  next
    case (Suc k)
    with Cons.prems have "\<not> in_section s cx cy" using p by auto
    moreover have "find_section G cx cy = fst (G ! k)"
      using Cons.prems Suc by (intro Cons.IH) auto
    ultimately show ?thesis using p Suc by simp
  qed
qed

lemma find_section_none:
  "(\<forall>p\<in>set G. \<not> in_section (snd p) cx cy) \<Longrightarrow> find_section G cx cy = ''center''"
  by (induction G) auto

lemma find_section_mem:
  "(\<exists>p\<in>set G. in_section (snd p) cx cy)
   \<Longrightarrow> \<exists>s. (find_section G cx cy, s) \<in> set G \<and> in_section s cx cy"
proof (induction G)
  case Nil
  then show ?case by simp
next
  case (Cons p G)
  obtain n s where p: "p = (n, s)" by (cases p)
  show ?case
  proof (cases "in_section s cx cy")
    case True
    with p show ?thesis by auto
  next
    case False
    with Cons.prems p have "\<exists>q\<in>set G. in_section (snd q) cx cy" by auto
    from Cons.IH [OF this] obtain s' where "(find_section G cx cy, s') \<in> set G" "in_section s' cx cy"
      by blast
    with False p show ?thesis by auto
  qed
qed

lemma in_section_Fin:
  "in_section \<lparr>x1 = Fin l, y1 = Fin t, x2 = Fin r, y2 = Fin b\<rparr> (Fin cx) (Fin cy)
   \<longleftrightarrow> l \<le> cx \<and> cx \<le> r \<and> t \<le> cy \<and> cy \<le> b"
  by (simp add: in_section_def num_ge_def)

lemma unit_square_covered:
  assumes "0 \<le> a" "a \<le> 1" "0 \<le> b" "b \<le> 1"
  shows "\<exists>p\<in>set GRID_SECTIONS. in_section (snd p) (Fin a) (Fin b)"
proof -
  consider "a \<le> 33/100" | "33/100 \<le> a \<and> a \<le> 66/100" | "66/100 \<le> a" by linarith
  then show ?thesis
  proof cases
    case 1
    consider "b \<le> 33/100" | "33/100 \<le> b \<and> b \<le> 66/100" | "66/100 \<le> b" by linarith
    then show ?thesis using 1 assms
      by cases (simp_all add: GRID_SECTIONS_def in_section_Fin)
  next
    case 2
    consider "b \<le> 33/100" | "33/100 \<le> b \<and> b \<le> 66/100" | "66/100 \<le> b" by linarith
    then show ?thesis using 2 assms
      by cases (simp_all add: GRID_SECTIONS_def in_section_Fin)
  next
    case 3
    consider "b \<le> 33/100" | "33/100 \<le> b \<and> b \<le> 66/100" | "66/100 \<le> b" by linarith
    then show ?thesis using 3 assms
      by cases (simp_all add: GRID_SECTIONS_def in_section_Fin)
  qed
qed

text \<open>
  C6, as the code has it. The label is the name of the first cell, in the order top-left,
  top-center, top-right, middle-left, center, middle-right, bottom-left, bottom-center,
  bottom-right, whose closed rectangle (cut at 0.33 and 0.66) contains the centroid; so
  on a boundary shared by several cells the earliest of them wins. \<open>center\<close> is the
  answer when no cell contains the centroid. For a centroid inside the unit square some
  cell does, and the label names a cell that contains it.
\<close>

theorem getGridSection_first_cell:
  "(\<forall>i<length GRID_SECTIONS.
       in_section (snd (GRID_SECTIONS ! i)) (centroid_x c) (centroid_y c)
       \<and> (\<forall>j<i. \<not> in_section (snd (GRID_SECTIONS ! j)) (centroid_x c) (centroid_y c))
       \<longrightarrow> getGridSection c = fst (GRID_SECTIONS ! i))
   \<and> ((\<forall>p\<in>set GRID_SECTIONS. \<not> in_section (snd p) (centroid_x c) (centroid_y c))
       \<longrightarrow> getGridSection c = ''center'')
   \<and> (\<forall>a b. centroid_x c = Fin a \<and> centroid_y c = Fin b
           \<and> 0 \<le> a \<and> a \<le> 1 \<and> 0 \<le> b \<and> b \<le> 1
       \<longrightarrow> (\<exists>s. (getGridSection c, s) \<in> set GRID_SECTIONS \<and> in_section s (Fin a) (Fin b)))"
proof (intro conjI allI impI)
  fix i
  assume "i < length GRID_SECTIONS"
    and "in_section (snd (GRID_SECTIONS ! i)) (centroid_x c) (centroid_y c)
         \<and> (\<forall>j<i. \<not> in_section (snd (GRID_SECTIONS ! j)) (centroid_x c) (centroid_y c))"
  then show "getGridSection c = fst (GRID_SECTIONS ! i)"
    unfolding getGridSection_def by (intro find_section_first) simp_all
next
  assume "\<forall>p\<in>set GRID_SECTIONS. \<not> in_section (snd p) (centroid_x c) (centroid_y c)"
  then show "getGridSection c = ''center''"
    unfolding getGridSection_def by (rule find_section_none)
next
  fix a b
  assume h: "centroid_x c = Fin a \<and> centroid_y c = Fin b
             \<and> 0 \<le> a \<and> a \<le> 1 \<and> 0 \<le> b \<and> b \<le> 1"
  then have "\<exists>p\<in>set GRID_SECTIONS. in_section (snd p) (Fin a) (Fin b)"
    by (intro unit_square_covered) simp_all
  from find_section_mem [OF this] h
  show "\<exists>s. (getGridSection c, s) \<in> set GRID_SECTIONS \<and> in_section s (Fin a) (Fin b)"
    by (simp add: getGridSection_def)
qed

theorem getGridSection_first_cell_witness:
  "getGridSection \<lparr>x1 = Fin (7/10), y1 = Fin (72/100), x2 = Fin (95/100), y2 = Fin (95/100)\<rparr>
     = ''bottom-right''
   \<and> (\<exists>s. (''bottom-right'', s) \<in> set GRID_SECTIONS \<and> in_section s (Fin (33/40)) (Fin (167/200)))
   \<and> getGridSection \<lparr>x1 = Fin (1/10), y1 = Fin (1/10), x2 = Fin (2/10), y2 = Fin (2/10)\<rparr>
     = ''top-left''
   \<and> getGridSection \<lparr>x1 = Fin 2, y1 = Fin 2, x2 = Fin 3, y2 = Fin 3\<rparr> = ''center''"
proof -
  let ?c = "\<lparr>x1 = Fin (7/10), y1 = Fin (72/100), x2 = Fin (95/100), y2 = Fin (95/100)\<rparr>"
  let ?d = "\<lparr>x1 = Fin (1/10), y1 = Fin (1/10), x2 = Fin (2/10), y2 = Fin (2/10)\<rparr>"
  let ?e = "\<lparr>x1 = Fin 2, y1 = Fin 2, x2 = Fin 3, y2 = Fin 3\<rparr>"
  have label: "getGridSection ?c = ''bottom-right''"
    by (simp add: getGridSection_def GRID_SECTIONS_def centroid_x_def centroid_y_def
        in_section_def num_ge_def)
  have cen: "centroid_x ?c = Fin (33/40) \<and> centroid_y ?c = Fin (167/200)
             \<and> (0::real) \<le> 33/40 \<and> (33/40::real) \<le> 1 \<and> (0::real) \<le> 167/200 \<and> (167/200::real) \<le> 1"
    by (simp add: centroid_x_def centroid_y_def)
  have first: "0 < length GRID_SECTIONS
      \<and> in_section (snd (GRID_SECTIONS ! 0)) (centroid_x ?d) (centroid_y ?d)
      \<and> (\<forall>j<0. \<not> in_section (snd (GRID_SECTIONS ! j)) (centroid_x ?d) (centroid_y ?d))"
    by (simp add: GRID_SECTIONS_def centroid_x_def centroid_y_def in_section_def num_ge_def)
  have none: "\<forall>p\<in>set GRID_SECTIONS. \<not> in_section (snd p) (centroid_x ?e) (centroid_y ?e)"
    by (simp add: GRID_SECTIONS_def centroid_x_def centroid_y_def in_section_def num_ge_def)
  from getGridSection_first_cell [of ?c] cen label
  have "\<exists>s. (''bottom-right'', s) \<in> set GRID_SECTIONS \<and> in_section s (Fin (33/40)) (Fin (167/200))"
    by metis
  moreover from getGridSection_first_cell [of ?d] first
  have "getGridSection ?d = fst (GRID_SECTIONS ! 0)" by blast
  then have "getGridSection ?d = ''top-left''" by (simp add: GRID_SECTIONS_def)
  moreover from getGridSection_first_cell [of ?e] none
  have "getGridSection ?e = ''center''" by blast
  ultimately show ?thesis using label by simp
qed

text \<open>
  The claim as stated fails on a tie: the centroid \<open>(0.33, 0.1)\<close> lies on the boundary
  shared by the cells top-left and top-center, and the label is \<open>top-left\<close>, not
  \<open>center\<close>.
\<close>

theorem getGridSection_tie_not_center:
  "in_section (snd (GRID_SECTIONS ! 0))
      (centroid_x \<lparr>x1 = Fin (33/100), y1 = Fin (1/10), x2 = Fin (33/100), y2 = Fin (1/10)\<rparr>)
      (centroid_y \<lparr>x1 = Fin (33/100), y1 = Fin (1/10), x2 = Fin (33/100), y2 = Fin (1/10)\<rparr>)
   \<and> in_section (snd (GRID_SECTIONS ! 1))
      (centroid_x \<lparr>x1 = Fin (33/100), y1 = Fin (1/10), x2 = Fin (33/100), y2 = Fin (1/10)\<rparr>)
      (centroid_y \<lparr>x1 = Fin (33/100), y1 = Fin (1/10), x2 = Fin (33/100), y2 = Fin (1/10)\<rparr>)
   \<and> fst (GRID_SECTIONS ! 0) = ''top-left'' \<and> fst (GRID_SECTIONS ! 1) = ''top-center''
   \<and> getGridSection \<lparr>x1 = Fin (33/100), y1 = Fin (1/10), x2 = Fin (33/100), y2 = Fin (1/10)\<rparr>
       = ''top-left''
   \<and> getGridSection \<lparr>x1 = Fin (33/100), y1 = Fin (1/10), x2 = Fin (33/100), y2 = Fin (1/10)\<rparr>
       \<noteq> ''center''"
  by (simp add: getGridSection_def GRID_SECTIONS_def centroid_x_def centroid_y_def
      in_section_def num_ge_def)

section \<open>Properties of the dispatcher\<close>

lemma io_bind_return [simp]: "io_bind (io_return x) f = f x"
  by (simp add: io_bind_def io_return_def)

lemma io_bind_throw [simp]: "io_bind (io_throw err) f = io_throw err"
  by (simp add: io_bind_def io_throw_def fun_eq_iff)

lemma io_bind_lift_Inr [simp]: "io_bind (io_lift (Inr x)) f = f x"
  by (simp add: io_bind_def io_lift_def)

lemma io_bind_lift_Inl [simp]: "io_bind (io_lift (Inl err)) f = io_throw err"
  by (simp add: io_bind_def io_lift_def io_throw_def fun_eq_iff)

lemma io_bind_apply:
  "io_bind m f w = (case m w of (Inl err, w') \<Rightarrow> (Inl err, w') | (Inr x, w') \<Rightarrow> f x w')"
  by (simp add: io_bind_def)

lemma io_catch_apply:
  "io_catch m h w = (case m w of (Inl err, w') \<Rightarrow> h err w' | (Inr x, w') \<Rightarrow> (Inr x, w'))"
  by (simp add: io_catch_def)

lemma io_return_apply [simp]: "io_return x w = (Inr x, w)"
  by (simp add: io_return_def)

lemma io_throw_apply [simp]: "io_throw err w = (Inl err, w)"
  by (simp add: io_throw_def)

lemma catch_to_failure_total: "yields_wf m \<Longrightarrow> total_wf (catch_to_failure m)"
  unfolding total_wf_def yields_wf_def catch_to_failure_def io_catch_apply
  by (auto split: prod.splits sum.splits simp: well_formed_def failed_def)

lemma yields_bind: "(\<And>x. yields_wf (f x)) \<Longrightarrow> yields_wf (io_bind m f)"
  unfolding yields_wf_def io_bind_apply by (auto split: prod.splits sum.splits)

lemma yields_throw: "yields_wf (io_throw err)"
  by (simp add: yields_wf_def)

lemma yields_saved: "yields_wf (io_return (saved u))"
  by (simp add: yields_wf_def well_formed_def saved_def)

lemma yields_failed: "yields_wf (io_return (failed u))"
  by (simp add: yields_wf_def well_formed_def failed_def)

lemma yields_if: "yields_wf a \<Longrightarrow> yields_wf b \<Longrightarrow> yields_wf (if c then a else b)"
  by simp

lemma yields_total: "total_wf m \<Longrightarrow> yields_wf m"
  unfolding total_wf_def yields_wf_def by (metis Pair_inject sum.inject(2))

lemmas yields_intros = yields_bind yields_throw yields_saved yields_failed yields_if

lemma generateWithDalle_total: "total_wf (generateWithDalle e options)"
  unfolding generateWithDalle_def
  by (intro catch_to_failure_total) (auto simp: Let_def intro!: yields_intros)

lemma generateWithGPT4o_total: "total_wf (generateWithGPT4o e options)"
  unfolding generateWithGPT4o_def
  by (intro catch_to_failure_total) (auto simp: Let_def intro!: yields_intros)

lemma generateWithLocalStableDiffusion_total: "total_wf (generateWithLocalStableDiffusion e options)"
  unfolding generateWithLocalStableDiffusion_def
  by (intro catch_to_failure_total) (auto simp: Let_def split: prod.splits intro!: yields_intros)

lemma generateWithStableDiffusionAPI_total: "total_wf (generateWithStableDiffusionAPI e options)"
  unfolding generateWithStableDiffusionAPI_def
  by (intro catch_to_failure_total) (auto simp: Let_def split: prod.splits intro!: yields_intros)

lemma generateWithReplicate_total: "total_wf (generateWithReplicate e options)"
  unfolding generateWithReplicate_def after_polling_def
  by (intro catch_to_failure_total) (auto simp: Let_def split: prod.splits intro!: yields_intros)

lemma generateWithCustomStableDiffusion_total: "total_wf (generateWithCustomStableDiffusion e options)"
  unfolding generateWithCustomStableDiffusion_def
  by (intro catch_to_failure_total)
     (auto simp: Let_def split: prod.splits custom_image.splits intro!: yields_intros)

lemma generateWithStableDiffusion_total: "total_wf (generateWithStableDiffusion e options)"
  unfolding generateWithStableDiffusion_def
  by (intro catch_to_failure_total)
     (auto simp: Let_def intro!: yields_total generateWithLocalStableDiffusion_total
        generateWithStableDiffusionAPI_total generateWithReplicate_total
        generateWithCustomStableDiffusion_total)

text \<open>
  C4, as the code has it. \<open>generateImage\<close> awaits \<open>initImageStorage\<close> outside any
  \<open>try\<close>: when that fails, the failure is thrown past \<open>generateImage\<close>; when it
  succeeds, \<open>generateImage\<close> returns a result, for every options value and every
  behaviour of the network and the platform, and a result that is not a success carries
  an error message. Every adapter on its own never throws.
\<close>

theorem generateImage_throws_only_from_storage:
  "(\<forall>err w1. initImageStorage e None w = (Inl err, w1)
       \<longrightarrow> generateImage e options w = (Inl err, w1))
   \<and> (\<forall>dir w1. initImageStorage e None w = (Inr dir, w1)
       \<longrightarrow> (\<exists>r w'. generateImage e options w = (Inr r, w') \<and> well_formed r))
   \<and> total_wf (generateWithDalle e options)
   \<and> total_wf (generateWithGPT4o e options)
   \<and> total_wf (generateWithStableDiffusion e options)
   \<and> total_wf (generateWithLocalStableDiffusion e options)
   \<and> total_wf (generateWithStableDiffusionAPI e options)
   \<and> total_wf (generateWithReplicate e options)
   \<and> total_wf (generateWithCustomStableDiffusion e options)"
proof -
  have thrown: "generateImage e options w = (Inl err, w1)"
    if "initImageStorage e None w = (Inl err, w1)" for err w1
    using that by (simp add: generateImage_def io_bind_apply)
  have returned: "\<exists>r w'. generateImage e options w = (Inr r, w') \<and> well_formed r"
    if init: "initImageStorage e None w = (Inr dir, w1)" for dir w1
  proof -
    let ?adapter =
      "if opt_model options = ''dall-e-3'' \<or> opt_model options = ''dall-e-2'' then
         generateWithDalle e options
       else if opt_model options = ''gpt-4o'' then generateWithGPT4o e options
       else if opt_model options = ''stable-diffusion'' then generateWithStableDiffusion e options
       else io_return (failed (''Unsupported model: '' @ opt_model options))"
    have "total_wf ?adapter"
      using generateWithDalle_total generateWithGPT4o_total generateWithStableDiffusion_total
      by (simp add: total_wf_def well_formed_def failed_def)
    then obtain r w2 where run: "?adapter w1 = (Inr r, w2)" and wf: "well_formed r"
      unfolding total_wf_def by blast
    have "generateImage e options w =
        (Inr (if res_success r then r\<lparr>res_fullPrompt := Some (opt_prompt options)\<rparr> else r), w2)"
      using init run by (simp add: generateImage_def io_bind_apply Let_def)
    moreover have "well_formed (if res_success r then r\<lparr>res_fullPrompt := Some (opt_prompt options)\<rparr> else r)"
      using wf by (auto simp add: well_formed_def)
    ultimately show ?thesis by blast
  qed
  show ?thesis
    using thrown returned generateWithDalle_total generateWithGPT4o_total
      generateWithStableDiffusion_total generateWithLocalStableDiffusion_total
      generateWithStableDiffusionAPI_total generateWithReplicate_total
      generateWithCustomStableDiffusion_total
    by blast
qed

lemma init_quiet:
  "initImageStorage quiet_env None fresh_world =
     (Inr ''/data/images'',
      fresh_world
        \<lparr>baseImageDir := Some ''/data/images'',
         ipc_log := [GetAppDataDir, EnsureDirectory ''/data/images'']\<rparr>)"
  by (simp add: initImageStorage_def quiet_env_def fresh_world_def str_truthy_def io_bind_apply
      invoke_def ipc_def template_text_def)

theorem generateImage_unknown_model:
  "generateImage quiet_env (sample_options\<lparr>opt_model := ''midjourney''\<rparr>) fresh_world =
     (Inr (failed ''Unsupported model: midjourney''),
      fresh_world
        \<lparr>baseImageDir := Some ''/data/images'',
         ipc_log := [GetAppDataDir, EnsureDirectory ''/data/images'']\<rparr>)"
  using generateImage_throws_only_from_storage
    [of quiet_env fresh_world "sample_options\<lparr>opt_model := ''midjourney''\<rparr>"] init_quiet
  by (simp add: generateImage_def io_bind_apply sample_options_def failed_def)

text \<open>
  The claim as stated fails when the image directory cannot be prepared: the rejection of
  the platform call \<open>getAppDataDir\<close> leaves \<open>generateImage\<close> as a rejection.
\<close>

theorem generateImage_rejects_when_storage_fails:
  "generateImage
     (quiet_env\<lparr>user_data_path := (\<lambda>n. Inl (JsError ''EACCES: permission denied''))\<rparr>)
     sample_options fresh_world =
     (Inl (JsError ''EACCES: permission denied''), fresh_world\<lparr>ipc_log := [GetAppDataDir]\<rparr>)"
  by (simp add: generateImage_def initImageStorage_def quiet_env_def fresh_world_def
      str_truthy_def io_bind_apply invoke_def ipc_def)

section \<open>The artifact store under a failing download\<close>

lemma show_nat_example: "show_nat 1700000000000 = ''1700000000000''"
  by (simp add: show_nat.simps digit_char_def)

lemma show_nat_7: "show_nat 7 = ''7''"
  by (simp add: show_nat.simps digit_char_def)

lemmas io_simps = io_bind_apply io_catch_apply io_lift_def fetch_def invoke_def sleep_def

lemma error_message_JsError [simp]: "error_message (JsError m) = m"
  by (simp add: error_message_def)

lemma file_url_example:
  "getFileUrl ''/data/images/s1/1700000000000-123e4567.png''
     = ''file:///data/images/s1/1700000000000-123e4567.png''"
  by code_simp

text \<open>A platform call other than \<open>getAppDataDir\<close> never rejects.\<close>

lemma ipc_file_call:
  "call \<noteq> GetAppDataDir \<Longrightarrow> ipc e n call = Inr (JBool (file_ok e n call))"
  by (cases call) (simp_all add: ipc_def)

lemma init_download_fails:
  "initImageStorage download_fails None fresh_world =
     (Inr ''/data/images'',
      fresh_world
        \<lparr>baseImageDir := Some ''/data/images'',
         ipc_log := [GetAppDataDir, EnsureDirectory ''/data/images'']\<rparr>)"
  by (simp add: initImageStorage_def download_fails_def quiet_env_def fresh_world_def
      str_truthy_def io_simps ipc_def template_text_def)

text \<open>
  With the image directory known, \<open>saveImageFromUrl\<close> makes two platform calls and
  returns the file URL of the path it chose, whatever the calls answer.
\<close>

lemma saveImageFromUrl_prepared:
  assumes "baseImageDir w = Some dir" and "dir \<noteq> []"
  shows "saveImageFromUrl e url sessionId w =
     (let sessionDir = dir @ ''/'' @ sessionId;
          path = sessionDir @ ''/''
            @ fresh_filename e (w\<lparr>ipc_log := ipc_log w @ [EnsureDirectory sessionDir]\<rparr>)
      in (Inr (getFileUrl path),
          w\<lparr>ipc_log := ipc_log w @ [EnsureDirectory sessionDir, DownloadImage url path]\<rparr>))"
  using assms
  by (simp add: saveImageFromUrl_def getSessionDirectory_def initImageStorage_def
      str_truthy_def io_simps ipc_file_call Let_def)

lemma saveImageFromUrl_returns: "\<exists>u w'. saveImageFromUrl e url sessionId w = (Inr u, w')"
  by (simp add: saveImageFromUrl_def io_catch_apply split: prod.splits sum.splits)

lemma name_download_fails:
  "fresh_filename download_fails w = ''1700000000000-123e4567.png''"
  by (simp add: fresh_filename_def download_fails_def quiet_env_def show_nat_example
      substring0_def)

text \<open>
  The DALL-E adapter after an \<open>ok\<close> response that carries an image URL, with the image
  directory known: it asks the platform to download the image and returns a success
  with the file URL, whatever the platform answers.
\<close>

lemma dalle_after_fetch:
  assumes key: "str_truthy (opt_apiKey options)"
    and net: "net e (length (fetch_log w)) (dalle_request options) = Inr response"
    and ok: "resp_ok response"
    and body: "resp_json response = Inr data"
    and obj: "\<not> nullish data"
    and url: "truthy (opt_prop (opt_index0 (own_prop data ''data'')) ''url'')"
    and base: "baseImageDir w = Some dir" "dir \<noteq> []"
  shows "generateWithDalle e options w =
     (let sessionDir = dir @ ''/'' @ opt_sessionId options;
          path = sessionDir @ ''/''
            @ fresh_filename e (w\<lparr>ipc_log := ipc_log w @ [EnsureDirectory sessionDir]\<rparr>)
      in (Inr (saved (getFileUrl path)),
          w\<lparr>fetch_log := fetch_log w @ [dalle_request options],
            ipc_log := ipc_log w @
              [EnsureDirectory sessionDir,
               DownloadImage (opt_prop (opt_index0 (own_prop data ''data'')) ''url'') path]\<rparr>))"
proof -
  let ?w1 = "w\<lparr>fetch_log := fetch_log w @ [dalle_request options]\<rparr>"
  let ?url = "opt_prop (opt_index0 (own_prop data ''data'')) ''url''"
  have name: "fresh_filename e (?w1\<lparr>ipc_log := ipc_log ?w1 @ [c]\<rparr>)
      = fresh_filename e (w\<lparr>ipc_log := ipc_log w @ [c]\<rparr>)" for c
    by (simp add: fresh_filename_def)
  have save: "saveImageFromUrl e ?url (opt_sessionId options) ?w1 =
     (let sessionDir = dir @ ''/'' @ opt_sessionId options;
          path = sessionDir @ ''/''
            @ fresh_filename e (w\<lparr>ipc_log := ipc_log w @ [EnsureDirectory sessionDir]\<rparr>)
      in (Inr (getFileUrl path),
          ?w1\<lparr>ipc_log := ipc_log w @ [EnsureDirectory sessionDir, DownloadImage ?url path]\<rparr>))"
    using saveImageFromUrl_prepared [of ?w1 dir e ?url "opt_sessionId options"] base name
    by (simp add: Let_def)
  have "generateWithDalle e options w =
      catch_to_failure
        (io_bind (saveImageFromUrl e ?url (opt_sessionId options))
           (\<lambda>localImageUrl. io_return (saved localImageUrl))) ?w1"
    using key net ok body obj url
    by (simp add: generateWithDalle_def catch_to_failure_def io_simps read_prop_def Let_def)
  then show ?thesis
    by (simp add: save catch_to_failure_def io_simps Let_def)
qed

text \<open>
  Claim C2 fails on the code. With a valid key, a provider response that carries an image
  URL, and a download that fails (the handler of \<open>downloadImage\<close> catches the failure and
  returns \<open>false\<close>), \<open>generateImage\<close> through the DALL-E adapter returns
  \<open>success: true\<close> with, as \<open>imageUrl\<close> and \<open>localImagePath\<close>, the file URL of the path
  that the download was to write: \<open>saveImageFromUrl\<close> does not look at what the call
  returns, so the failure is not surfaced and the result refers to a file that is not
  there.
\<close>

theorem dalle_download_failure_returns_success:
  "fst (generateImage download_fails sample_options fresh_world) =
     Inr \<lparr>res_success = True,
          res_imageUrl = ''file:///data/images/s1/1700000000000-123e4567.png'',
          res_localImagePath = Some ''file:///data/images/s1/1700000000000-123e4567.png'',
          res_error = None,
          res_fullPrompt = Some ''a red fox''\<rparr>
   \<and> ipc_log (snd (generateImage download_fails sample_options fresh_world)) =
       [GetAppDataDir, EnsureDirectory ''/data/images'', EnsureDirectory ''/data/images/s1'',
        DownloadImage (JStr ''https://provider.example/tmp/img.png'')
          ''/data/images/s1/1700000000000-123e4567.png'']
   \<and> ipc download_fails 3
         (DownloadImage (JStr ''https://provider.example/tmp/img.png'')
            ''/data/images/s1/1700000000000-123e4567.png'') = Inr (JBool False)"
proof -
  let ?w0 = "fresh_world
        \<lparr>baseImageDir := Some ''/data/images'',
         ipc_log := [GetAppDataDir, EnsureDirectory ''/data/images'']\<rparr>"
  let ?data = "JObj [(''data'', JArr [JObj [(''url'', JStr ''https://provider.example/tmp/img.png'')]])]"
  have net: "net download_fails (length (fetch_log ?w0)) (dalle_request sample_options)
      = Inr (ok_json ?data)"
    by (simp add: download_fails_def)
  have url: "opt_prop (opt_index0 (own_prop ?data ''data'')) ''url''
      = JStr ''https://provider.example/tmp/img.png''"
    by (simp add: own_prop_def opt_prop_def opt_index0_def first_element_def nullish_def)
  have adapter: "generateWithDalle download_fails sample_options ?w0 =
      (Inr (saved ''file:///data/images/s1/1700000000000-123e4567.png''),
       ?w0\<lparr>fetch_log := [dalle_request sample_options],
           ipc_log := [GetAppDataDir, EnsureDirectory ''/data/images'',
                       EnsureDirectory ''/data/images/s1'',
                       DownloadImage (JStr ''https://provider.example/tmp/img.png'')
                         ''/data/images/s1/1700000000000-123e4567.png'']\<rparr>)"
    using dalle_after_fetch [of sample_options download_fails ?w0 "ok_json ?data" ?data
        "''/data/images''"] net
    by (simp add: url) (simp add: sample_options_def str_truthy_def ok_json_def nullish_def
        truthy_def fresh_world_def Let_def name_download_fails file_url_example)
  have run: "generateImage download_fails sample_options fresh_world =
      (Inr ((saved ''file:///data/images/s1/1700000000000-123e4567.png'')
              \<lparr>res_fullPrompt := Some ''a red fox''\<rparr>),
       ?w0\<lparr>fetch_log := [dalle_request sample_options],
           ipc_log := [GetAppDataDir, EnsureDirectory ''/data/images'',
                       EnsureDirectory ''/data/images/s1'',
                       DownloadImage (JStr ''https://provider.example/tmp/img.png'')
                         ''/data/images/s1/1700000000000-123e4567.png'']\<rparr>)"
    by (simp add: generateImage_def io_bind_apply init_download_fails adapter Let_def)
       (simp add: sample_options_def saved_def)
  have answer: "ipc download_fails 3
         (DownloadImage (JStr ''https://provider.example/tmp/img.png'')
            ''/data/images/s1/1700000000000-123e4567.png'') = Inr (JBool False)"
    by (simp add: ipc_def download_fails_def)
  show ?thesis
    using run answer by (simp add: saved_def)
qed

section \<open>The poll loop of the Replicate adapter\<close>

lemma polled_world_0 [simp]: "polled_world key u 0 w = w"
  by (simp add: polled_world_def)

lemma poll_step_pending:
  assumes "attempt < maxAttempts"
    and "answers e (length (fetch_log w)) (poll_request key u) body"
    and "pending body"
  shows "poll_loop e key u maxAttempts attempt result w =
         poll_loop e key u maxAttempts (attempt + 1) body
           (w\<lparr>fetch_log := fetch_log w @ [poll_request key u], sleep_log := sleep_log w @ [2000]\<rparr>)"
  using assms
  by (subst poll_loop.simps)
     (auto simp add: answers_def pending_def io_simps read_prop_def)

lemma poll_step_succeeded:
  assumes "attempt < maxAttempts"
    and "answers e (length (fetch_log w)) (poll_request key u) body"
    and "own_prop body ''status'' = JStr ''succeeded''"
  shows "poll_loop e key u maxAttempts attempt result w =
         (Inr body, w\<lparr>fetch_log := fetch_log w @ [poll_request key u]\<rparr>)"
proof -
  from assms(3) have "\<not> nullish body" by (auto simp add: nullish_def own_prop_def)
  with assms show ?thesis
    by (subst poll_loop.simps) (auto simp add: answers_def io_simps read_prop_def)
qed

lemma poll_step_failed:
  assumes "attempt < maxAttempts"
    and "answers e (length (fetch_log w)) (poll_request key u) body"
    and "own_prop body ''status'' = JStr ''failed''"
  shows "poll_loop e key u maxAttempts attempt result w =
         (Inl (JsError (''Replicate generation failed: ''
            @ template_text e (json_or (own_prop body ''error'') (JStr ''Unknown error'')))),
          w\<lparr>fetch_log := fetch_log w @ [poll_request key u]\<rparr>)"
proof -
  from assms(3) have "\<not> nullish body" by (auto simp add: nullish_def own_prop_def)
  with assms show ?thesis
    by (subst poll_loop.simps) (auto simp add: answers_def io_simps read_prop_def)
qed

lemma poll_exhausted:
  "\<not> attempt < maxAttempts \<Longrightarrow> poll_loop e key u maxAttempts attempt result w = (Inr result, w)"
  by (subst poll_loop.simps) simp

lemma poll_pending_run:
  assumes "attempt + k \<le> maxAttempts"
    and "\<forall>j<k. answers e (length (fetch_log w) + j) (poll_request key u) (polls j) \<and> pending (polls j)"
  shows "poll_loop e key u maxAttempts attempt result w =
         poll_loop e key u maxAttempts (attempt + k)
           (if k = 0 then result else polls (k - 1)) (polled_world key u k w)"
  using assms
proof (induction k arbitrary: result)
  case 0
  then show ?case by simp
next
  case (Suc k)
  have first: "poll_loop e key u maxAttempts attempt result w =
      poll_loop e key u maxAttempts (attempt + k)
        (if k = 0 then result else polls (k - 1)) (polled_world key u k w)"
    using Suc.prems by (intro Suc.IH) auto
  have len: "length (fetch_log (polled_world key u k w)) = length (fetch_log w) + k"
    by (simp add: polled_world_def)
  have step: "poll_loop e key u maxAttempts (attempt + k)
        (if k = 0 then result else polls (k - 1)) (polled_world key u k w) =
      poll_loop e key u maxAttempts (attempt + k + 1) (polls k)
        ((polled_world key u k w)
           \<lparr>fetch_log := fetch_log (polled_world key u k w) @ [poll_request key u],
            sleep_log := sleep_log (polled_world key u k w) @ [2000]\<rparr>)"
    using Suc.prems by (intro poll_step_pending) (simp_all add: len)
  have world: "(polled_world key u k w)
           \<lparr>fetch_log := fetch_log (polled_world key u k w) @ [poll_request key u],
            sleep_log := sleep_log (polled_world key u k w) @ [2000]\<rparr>
      = polled_world key u (Suc k) w"
    by (simp add: polled_world_def replicate_append_same)
  show ?case using first step world by simp
qed

lemma poll_loop_unfold:
  "attempt < maxAttempts \<Longrightarrow>
   poll_loop e key u maxAttempts attempt result w =
     (let w1 = w\<lparr>fetch_log := fetch_log w @ [poll_request key u]\<rparr>
      in case net e (length (fetch_log w)) (poll_request key u) of
           Inl err \<Rightarrow> (Inl err, w1)
         | Inr r \<Rightarrow>
             (case resp_json r of
                Inl err \<Rightarrow> (Inl err, w1)
              | Inr body \<Rightarrow>
                  if nullish body then (Inl (JsError (type_error_text e body ''status'')), w1)
                  else if own_prop body ''status'' = JStr ''succeeded'' then (Inr body, w1)
                  else if own_prop body ''status'' = JStr ''failed'' then
                    (Inl (JsError (''Replicate generation failed: ''
                       @ template_text e (json_or (own_prop body ''error'') (JStr ''Unknown error'')))),
                     w1)
                  else poll_loop e key u maxAttempts (attempt + 1) body
                         (w1\<lparr>sleep_log := sleep_log w1 @ [2000]\<rparr>)))"
  by (subst poll_loop.simps)
     (simp add: io_simps read_prop_def Let_def split: sum.splits)

lemma poll_loop_logs:
  "poll_loop e key u maxAttempts attempt result w = (out, w') \<Longrightarrow>
   \<exists>m s. m \<le> maxAttempts - attempt \<and> s \<le> m
     \<and> fetch_log w' = fetch_log w @ replicate m (poll_request key u)
     \<and> sleep_log w' = sleep_log w @ replicate s 2000"
proof (induction "maxAttempts - attempt" arbitrary: attempt result w)
  case 0
  then have "\<not> attempt < maxAttempts" by simp
  with 0 have "w' = w" by (simp add: poll_exhausted)
  then show ?case by simp
next
  case (Suc n)
  then have less: "attempt < maxAttempts" by simp
  let ?w1 = "w\<lparr>fetch_log := fetch_log w @ [poll_request key u]\<rparr>"
  let ?w2 = "?w1\<lparr>sleep_log := sleep_log ?w1 @ [2000]\<rparr>"
  have one: "\<exists>m s. m \<le> maxAttempts - attempt \<and> s \<le> m
     \<and> fetch_log ?w1 = fetch_log w @ replicate m (poll_request key u)
     \<and> sleep_log ?w1 = sleep_log w @ replicate s 2000"
    using less by (intro exI [where x = 1] exI [where x = 0]) simp
  consider (stop) "w' = ?w1"
    | (go) body where "poll_loop e key u maxAttempts (attempt + 1) body ?w2 = (out, w')"
    using Suc.prems unfolding poll_loop_unfold [OF less] Let_def
    by (auto split: sum.splits if_splits)
  then show ?case
  proof cases
    case stop
    with one show ?thesis by simp
  next
    case go
    have "n = maxAttempts - (attempt + 1)" using Suc.hyps(2) by simp
    from Suc.hyps(1) [OF this go] obtain m s where
      ms: "m \<le> maxAttempts - (attempt + 1)" "s \<le> m"
      "fetch_log w' = fetch_log ?w2 @ replicate m (poll_request key u)"
      "sleep_log w' = sleep_log ?w2 @ replicate s 2000"
      by blast
    show ?thesis
      using ms less
      by (intro exI [where x = "Suc m"] exI [where x = "Suc s"])
         (simp add: replicate_app_Cons_same)
  qed
qed

lemma saveImageFromUrl_logs:
  "saveImageFromUrl e url sessionId w = (out, w')
   \<Longrightarrow> fetch_log w' = fetch_log w \<and> sleep_log w' = sleep_log w"
  by (auto simp add: saveImageFromUrl_def getSessionDirectory_def initImageStorage_def io_simps
      Let_def split: sum.splits if_splits prod.splits)

lemma replicate_after_start:
  assumes key: "str_truthy (opt_stableDiffusionAPIKey options)"
    and start: "net e (length (fetch_log w)) (replicate_request options) = Inr r0"
    and ok: "resp_ok r0"
    and body: "resp_json r0 = Inr prediction"
    and url: "truthy (opt_prop (own_prop prediction ''urls'') ''get'')"
  shows "generateWithReplicate e options w =
           catch_to_failure
             (io_bind
                (poll_loop e (the (opt_stableDiffusionAPIKey options))
                   (opt_prop (own_prop prediction ''urls'') ''get'') 30 0 JUndefined)
                (after_polling e options))
             (w\<lparr>fetch_log := fetch_log w @ [replicate_request options]\<rparr>)"
proof -
  have "\<not> nullish prediction"
    using url by (auto simp add: nullish_def own_prop_def opt_prop_def truthy_def)
  then show ?thesis
    using assms
    by (simp add: generateWithReplicate_def catch_to_failure_def io_simps read_prop_def Let_def)
qed

lemma after_polling_succeeded:
  assumes "own_prop body ''status'' = JStr ''succeeded''"
    and "truthy (opt_index0 (own_prop body ''output''))"
  shows "\<exists>url w'. after_polling e options body w = (Inr (saved url), w')
            \<and> fetch_log w' = fetch_log w \<and> sleep_log w' = sleep_log w"
proof -
  from assms(1) have "truthy body"
    by (cases body) (simp_all add: own_prop_def truthy_def)
  obtain url w' where save:
    "saveImageFromUrl e (opt_index0 (own_prop body ''output'')) (opt_sessionId options) w = (Inr url, w')"
    using saveImageFromUrl_returns by blast
  from saveImageFromUrl_logs [OF save]
  have "fetch_log w' = fetch_log w \<and> sleep_log w' = sleep_log w" .
  with save assms \<open>truthy body\<close> show ?thesis
    by (auto simp add: after_polling_def Let_def io_simps)
qed

lemma after_polling_pending:
  "own_prop body ''status'' \<noteq> JStr ''succeeded''
   \<Longrightarrow> after_polling e options body w
       = (Inl (JsError ''Timed out waiting for Replicate to generate image''), w)"
  by (simp add: after_polling_def)

text \<open>
  Claim C7. Let the key be set, the start request be answered \<open>ok\<close> and the prediction
  carry a poll URL. Then \<open>generateWithReplicate\<close> sends, after the start request, at most
  30 polls to that URL and waits 2000 ms after a poll, never more often than it polled.
  If the first \<open>a < 30\<close> polls are pending (the status is neither \<open>succeeded\<close> nor
  \<open>failed\<close>) and poll \<open>a\<close> reports \<open>succeeded\<close> with a first output, the result is a
  success carrying the stored image, after exactly \<open>a + 1\<close> polls and \<open>a\<close> waits. If poll
  \<open>a\<close> reports \<open>failed\<close> instead, the result is the failure
  \<open>Replicate generation failed: ...\<close> with the provider's error. If all 30 polls are
  pending, the result is the failure \<open>Timed out waiting for Replicate to generate image\<close>,
  after 30 polls and 30 waits.
\<close>

theorem replicate_polling:
  assumes key: "str_truthy (opt_stableDiffusionAPIKey options)"
    and start: "net e (length (fetch_log w)) (replicate_request options) = Inr r0"
    and ok: "resp_ok r0"
    and body: "resp_json r0 = Inr prediction"
    and url: "truthy (opt_prop (own_prop prediction ''urls'') ''get'')"
  shows
    "(let k = the (opt_stableDiffusionAPIKey options);
          u = opt_prop (own_prop prediction ''urls'') ''get'';
          n = length (fetch_log w);
          run = generateWithReplicate e options w
      in (\<exists>m s. m \<le> 30 \<and> s \<le> m
            \<and> fetch_log (snd run)
                = fetch_log w @ [replicate_request options] @ replicate m (poll_request k u)
            \<and> sleep_log (snd run) = sleep_log w @ replicate s 2000)
         \<and> (\<forall>a polls.
               a < 30
               \<and> (\<forall>j<a. answers e (n + 1 + j) (poll_request k u) (polls j) \<and> pending (polls j))
               \<and> answers e (n + 1 + a) (poll_request k u) (polls a)
               \<and> own_prop (polls a) ''status'' = JStr ''succeeded''
               \<and> truthy (opt_index0 (own_prop (polls a) ''output''))
             \<longrightarrow> (\<exists>local. fst run = Inr (saved local))
                 \<and> fetch_log (snd run)
                     = fetch_log w @ [replicate_request options]
                         @ replicate (a + 1) (poll_request k u)
                 \<and> sleep_log (snd run) = sleep_log w @ replicate a 2000)
         \<and> (\<forall>a polls.
               a < 30
               \<and> (\<forall>j<a. answers e (n + 1 + j) (poll_request k u) (polls j) \<and> pending (polls j))
               \<and> answers e (n + 1 + a) (poll_request k u) (polls a)
               \<and> own_prop (polls a) ''status'' = JStr ''failed''
             \<longrightarrow> fst run =
                   Inr (failed (''Replicate generation failed: ''
                     @ template_text e (json_or (own_prop (polls a) ''error'')
                                          (JStr ''Unknown error'')))))
         \<and> (\<forall>polls.
               (\<forall>j<30. answers e (n + 1 + j) (poll_request k u) (polls j) \<and> pending (polls j))
             \<longrightarrow> fst run = Inr (failed ''Timed out waiting for Replicate to generate image'')
                 \<and> fetch_log (snd run)
                     = fetch_log w @ [replicate_request options] @ replicate 30 (poll_request k u)
                 \<and> sleep_log (snd run) = sleep_log w @ replicate 30 2000))"
proof -
  define k where "k = the (opt_stableDiffusionAPIKey options)"
  define u where "u = opt_prop (own_prop prediction ''urls'') ''get''"
  define n where "n = length (fetch_log w)"
  define w1 where "w1 = w\<lparr>fetch_log := fetch_log w @ [replicate_request options]\<rparr>"
  define run where "run = generateWithReplicate e options w"
  have run_eq: "run = catch_to_failure
      (io_bind (poll_loop e k u 30 0 JUndefined) (after_polling e options)) w1"
    unfolding run_def k_def u_def w1_def
    by (rule replicate_after_start [OF key start ok body url])
  have len1: "length (fetch_log w1) = n + 1" and f1: "fetch_log w1 = fetch_log w @ [replicate_request options]"
    and s1: "sleep_log w1 = sleep_log w"
    by (simp_all add: w1_def n_def)
  have bounded: "\<exists>m s. m \<le> 30 \<and> s \<le> m
      \<and> fetch_log (snd run) = fetch_log w @ [replicate_request options] @ replicate m (poll_request k u)
      \<and> sleep_log (snd run) = sleep_log w @ replicate s 2000"
  proof -
    obtain out w2 where loop: "poll_loop e k u 30 0 JUndefined w1 = (out, w2)"
      by (cases "poll_loop e k u 30 0 JUndefined w1")
    from poll_loop_logs [OF loop] obtain m s where ms: "m \<le> 30" "s \<le> m"
      "fetch_log w2 = fetch_log w1 @ replicate m (poll_request k u)"
      "sleep_log w2 = sleep_log w1 @ replicate s 2000"
      by auto
    have "fetch_log (snd run) = fetch_log w2 \<and> sleep_log (snd run) = sleep_log w2"
    proof (cases out)
      case (Inl err)
      with loop show ?thesis
        by (simp add: run_eq catch_to_failure_def io_simps)
    next
      case (Inr polled)
      obtain r3 w3 where after: "after_polling e options polled w2 = (r3, w3)"
        by (cases "after_polling e options polled w2")
      have "fetch_log w3 = fetch_log w2 \<and> sleep_log w3 = sleep_log w2"
        using after saveImageFromUrl_logs
        by (auto simp add: after_polling_def Let_def io_simps split: if_splits prod.splits sum.splits)
      with Inr loop after show ?thesis
        by (auto simp add: run_eq catch_to_failure_def io_simps split: sum.splits)
    qed
    with ms f1 s1 show ?thesis by auto
  qed
  have pending_run: "poll_loop e k u 30 0 JUndefined w1 =
      poll_loop e k u 30 a (if a = 0 then JUndefined else polls (a - 1)) (polled_world k u a w1)"
    if "a \<le> 30" and "\<forall>j<a. answers e (n + 1 + j) (poll_request k u) (polls j) \<and> pending (polls j)"
    for a polls
    using poll_pending_run [of 0 a 30 e w1 k u polls JUndefined] that by (simp add: len1)
  have lenp: "length (fetch_log (polled_world k u a w1)) = n + 1 + a" for a
    by (simp add: polled_world_def len1)
  have succeeded: "(\<exists>local. fst run = Inr (saved local))
      \<and> fetch_log (snd run) = fetch_log w @ [replicate_request options] @ replicate (a + 1) (poll_request k u)
      \<and> sleep_log (snd run) = sleep_log w @ replicate a 2000"
    if h: "a < 30
        \<and> (\<forall>j<a. answers e (n + 1 + j) (poll_request k u) (polls j) \<and> pending (polls j))
        \<and> answers e (n + 1 + a) (poll_request k u) (polls a)
        \<and> own_prop (polls a) ''status'' = JStr ''succeeded''
        \<and> truthy (opt_index0 (own_prop (polls a) ''output''))" for a polls
  proof -
    let ?wa = "polled_world k u a w1"
    let ?wb = "?wa\<lparr>fetch_log := fetch_log ?wa @ [poll_request k u]\<rparr>"
    have loop: "poll_loop e k u 30 0 JUndefined w1 = (Inr (polls a), ?wb)"
      using h pending_run [of a polls]
        poll_step_succeeded [of a 30 e ?wa k u "polls a"]
      by (simp add: lenp)
    from after_polling_succeeded [of "polls a" e options ?wb] h
    obtain local w3 where after: "after_polling e options (polls a) ?wb = (Inr (saved local), w3)"
      and logs: "fetch_log w3 = fetch_log ?wb" "sleep_log w3 = sleep_log ?wb"
      by blast
    have "run = (Inr (saved local), w3)"
      using loop after by (simp add: run_eq catch_to_failure_def io_simps)
    then have "fst run = Inr (saved local)" and "snd run = w3"
      by simp_all
    moreover have "fetch_log w3 =
        fetch_log w @ [replicate_request options] @ replicate (a + 1) (poll_request k u)"
      and "sleep_log w3 = sleep_log w @ replicate a 2000"
      using logs by (simp_all add: polled_world_def f1 s1 replicate_append_same)
    ultimately show ?thesis by blast
  qed
  have failed_run: "fst run =
      Inr (failed (''Replicate generation failed: ''
        @ template_text e (json_or (own_prop (polls a) ''error'') (JStr ''Unknown error''))))"
    if h: "a < 30
        \<and> (\<forall>j<a. answers e (n + 1 + j) (poll_request k u) (polls j) \<and> pending (polls j))
        \<and> answers e (n + 1 + a) (poll_request k u) (polls a)
        \<and> own_prop (polls a) ''status'' = JStr ''failed''" for a polls
  proof -
    let ?wa = "polled_world k u a w1"
    have loop: "poll_loop e k u 30 0 JUndefined w1 =
        (Inl (JsError (''Replicate generation failed: ''
           @ template_text e (json_or (own_prop (polls a) ''error'') (JStr ''Unknown error'')))),
         ?wa\<lparr>fetch_log := fetch_log ?wa @ [poll_request k u]\<rparr>)"
      using h pending_run [of a polls]
        poll_step_failed [of a 30 e ?wa k u "polls a"]
      by (simp add: lenp)
    show ?thesis
      using loop by (simp add: run_eq catch_to_failure_def io_simps)
  qed
  have timed_out: "fst run = Inr (failed ''Timed out waiting for Replicate to generate image'')
      \<and> fetch_log (snd run) = fetch_log w @ [replicate_request options] @ replicate 30 (poll_request k u)
      \<and> sleep_log (snd run) = sleep_log w @ replicate 30 2000"
    if h: "\<forall>j<30. answers e (n + 1 + j) (poll_request k u) (polls j) \<and> pending (polls j)" for polls
  proof -
    have loop: "poll_loop e k u 30 0 JUndefined w1 = (Inr (polls 29), polled_world k u 30 w1)"
      using pending_run [of 30 polls] h by (simp add: poll_exhausted)
    have "pending (polls 29)" using h by simp
    then have "own_prop (polls 29) ''status'' \<noteq> JStr ''succeeded''"
      by (simp add: pending_def)
    from after_polling_pending [OF this]
    have "run = (Inr (failed ''Timed out waiting for Replicate to generate image''),
                 polled_world k u 30 w1)"
      using loop by (simp add: run_eq catch_to_failure_def io_simps)
    then show ?thesis by (simp add: polled_world_def f1 s1)
  qed
  show ?thesis
    unfolding Let_def k_def [symmetric] u_def [symmetric] n_def [symmetric] run_def [symmetric]
    using bounded succeeded failed_run timed_out by blast
qed

text \<open>
  The theorem at two networks: five polls in progress and a sixth that succeeded give a
  success after 6 polls and 5 waits; polls that stay in progress give the timeout after
  30 polls and 30 waits.
\<close>

theorem replicate_polling_witness:
  "(\<exists>local. fst (generateWithReplicate five_then_done replicate_options ready_world)
                = Inr (saved local))
   \<and> fetch_log (snd (generateWithReplicate five_then_done replicate_options ready_world))
       = replicate_request replicate_options
           # replicate 6 (poll_request ''r8_key''
                            (JStr ''https://api.replicate.com/v1/predictions/p1''))
   \<and> sleep_log (snd (generateWithReplicate five_then_done replicate_options ready_world))
       = replicate 5 2000
   \<and> fst (generateWithReplicate never_done replicate_options ready_world)
       = Inr (failed ''Timed out waiting for Replicate to generate image'')
   \<and> fetch_log (snd (generateWithReplicate never_done replicate_options ready_world))
       = replicate_request replicate_options
           # replicate 30 (poll_request ''r8_key''
                             (JStr ''https://api.replicate.com/v1/predictions/p1''))
   \<and> sleep_log (snd (generateWithReplicate never_done replicate_options ready_world))
       = replicate 30 2000"
proof -
  let ?u = "JStr ''https://api.replicate.com/v1/predictions/p1''"
  let ?poll = "poll_request ''r8_key'' ?u"
  have key: "str_truthy (opt_stableDiffusionAPIKey replicate_options)"
    and k: "the (opt_stableDiffusionAPIKey replicate_options) = ''r8_key''"
    by (simp_all add: replicate_options_def sample_options_def str_truthy_def)
  have u: "opt_prop (own_prop started ''urls'') ''get'' = ?u"
    by (simp add: started_def own_prop_def opt_prop_def nullish_def)
  have tu: "truthy (opt_prop (own_prop started ''urls'') ''get'')"
    by (simp add: u truthy_def)
  have n: "length (fetch_log ready_world) = 0"
    by (simp add: ready_world_def)
  have okr: "resp_ok (ok_json started)" "resp_json (ok_json started) = Inr started"
    by (simp_all add: ok_json_def)
  have pend: "pending processing"
    by (simp add: pending_def processing_def own_prop_def nullish_def)
  have fin: "own_prop finished ''status'' = JStr ''succeeded''"
    "truthy (opt_index0 (own_prop finished ''output''))"
    by (simp_all add: finished_def own_prop_def opt_index0_def index0_def first_element_def nullish_def truthy_def)
  have logs: "fetch_log ready_world = []" "sleep_log ready_world = []"
    by (simp_all add: ready_world_def)
  have start5: "net five_then_done (length (fetch_log ready_world))
      (replicate_request replicate_options) = Inr (ok_json started)"
    by (simp add: n five_then_done_def)
  have polls5: "\<forall>j<5. answers five_then_done (0 + 1 + j) ?poll
        ((\<lambda>j. if j < 5 then processing else finished) j)
      \<and> pending ((\<lambda>j. if j < 5 then processing else finished) j)"
    by (simp add: answers_def five_then_done_def ok_json_def pend)
  have last5: "answers five_then_done (0 + 1 + 5) ?poll
      ((\<lambda>j. if j < (5::nat) then processing else finished) 5)"
    by (simp add: answers_def five_then_done_def ok_json_def)
  have start30: "net never_done (length (fetch_log ready_world))
      (replicate_request replicate_options) = Inr (ok_json started)"
    by (simp add: n never_done_def)
  have polls30: "\<forall>j<30. answers never_done (0 + 1 + j) ?poll ((\<lambda>j. processing) j)
      \<and> pending ((\<lambda>j. processing) j)"
    by (simp add: answers_def never_done_def ok_json_def pend)
  from replicate_polling [OF key start5 okr tu, unfolded Let_def k u logs list.size(3)]
  have "\<forall>a polls.
      a < 30
      \<and> (\<forall>j<a. answers five_then_done (0 + 1 + j) ?poll (polls j) \<and> pending (polls j))
      \<and> answers five_then_done (0 + 1 + a) ?poll (polls a)
      \<and> own_prop (polls a) ''status'' = JStr ''succeeded''
      \<and> truthy (opt_index0 (own_prop (polls a) ''output''))
      \<longrightarrow> (\<exists>local. fst (generateWithReplicate five_then_done replicate_options ready_world)
                      = Inr (saved local))
        \<and> fetch_log (snd (generateWithReplicate five_then_done replicate_options ready_world))
            = [] @ [replicate_request replicate_options] @ replicate (a + 1) ?poll
        \<and> sleep_log (snd (generateWithReplicate five_then_done replicate_options ready_world))
            = [] @ replicate a 2000"
    by blast
  from this [rule_format, of 5 "\<lambda>j. if j < 5 then processing else finished"] polls5 last5 fin
  have first: "(\<exists>local. fst (generateWithReplicate five_then_done replicate_options ready_world)
                      = Inr (saved local))
        \<and> fetch_log (snd (generateWithReplicate five_then_done replicate_options ready_world))
            = replicate_request replicate_options # replicate 6 ?poll
        \<and> sleep_log (snd (generateWithReplicate five_then_done replicate_options ready_world))
            = replicate 5 2000"
    by simp
  from replicate_polling [OF key start30 okr tu, unfolded Let_def k u logs list.size(3)]
  have "\<forall>polls.
      (\<forall>j<30. answers never_done (0 + 1 + j) ?poll (polls j) \<and> pending (polls j))
      \<longrightarrow> fst (generateWithReplicate never_done replicate_options ready_world)
            = Inr (failed ''Timed out waiting for Replicate to generate image'')
        \<and> fetch_log (snd (generateWithReplicate never_done replicate_options ready_world))
            = [] @ [replicate_request replicate_options] @ replicate 30 ?poll
        \<and> sleep_log (snd (generateWithReplicate never_done replicate_options ready_world))
            = [] @ replicate 30 2000"
    by blast
  from this [rule_format, of "\<lambda>j. processing"] polls30
  have second: "fst (generateWithReplicate never_done replicate_options ready_world)
            = Inr (failed ''Timed out waiting for Replicate to generate image'')
        \<and> fetch_log (snd (generateWithReplicate never_done replicate_options ready_world))
            = replicate_request replicate_options # replicate 30 ?poll
        \<and> sleep_log (snd (generateWithReplicate never_done replicate_options ready_world))
            = replicate 30 2000"
    by simp
  from first second show ?thesis by blast
qed

section \<open>A succeeded prediction without an output\<close>

text \<open>
  Five polls in progress and a sixth that reports \<open>succeeded\<close> without an output: the
  result is a failure.
\<close>

theorem replicate_succeeded_without_output:
  "fst (generateWithReplicate five_then_empty replicate_options ready_world)
     = Inr (failed ''No image URL returned from Replicate'')"
proof -
  let ?u = "JStr ''https://api.replicate.com/v1/predictions/p1''"
  let ?w1 = "ready_world\<lparr>fetch_log := fetch_log ready_world @ [replicate_request replicate_options]\<rparr>"
  have key: "str_truthy (opt_stableDiffusionAPIKey replicate_options)"
    and k: "the (opt_stableDiffusionAPIKey replicate_options) = ''r8_key''"
    by (simp_all add: replicate_options_def sample_options_def str_truthy_def)
  have u: "opt_prop (own_prop started ''urls'') ''get'' = ?u"
    by (simp add: started_def own_prop_def opt_prop_def nullish_def)
  have tu: "truthy (opt_prop (own_prop started ''urls'') ''get'')"
    by (simp add: u truthy_def)
  have start: "net five_then_empty (length (fetch_log ready_world))
      (replicate_request replicate_options) = Inr (ok_json started)"
    by (simp add: ready_world_def five_then_empty_def)
  have okr: "resp_ok (ok_json started)" "resp_json (ok_json started) = Inr started"
    by (simp_all add: ok_json_def)
  have pend: "pending processing"
    by (simp add: pending_def processing_def own_prop_def nullish_def)
  have run: "generateWithReplicate five_then_empty replicate_options ready_world =
      catch_to_failure
        (io_bind (poll_loop five_then_empty ''r8_key'' ?u 30 0 JUndefined)
           (after_polling five_then_empty replicate_options)) ?w1"
    using replicate_after_start [OF key start okr tu] by (simp add: k u)
  have five: "poll_loop five_then_empty ''r8_key'' ?u 30 0 JUndefined ?w1 =
      poll_loop five_then_empty ''r8_key'' ?u 30 5 processing (polled_world ''r8_key'' ?u 5 ?w1)"
  proof -
    have "\<forall>j<5. answers five_then_empty (length (fetch_log ?w1) + j) (poll_request ''r8_key'' ?u)
          ((\<lambda>j. processing) j) \<and> pending ((\<lambda>j. processing) j)"
      by (simp add: ready_world_def answers_def five_then_empty_def ok_json_def pend)
    from poll_pending_run [of 0 5 30, OF _ this, of JUndefined] show ?thesis
      by simp
  qed
  have sixth: "poll_loop five_then_empty ''r8_key'' ?u 30 5 processing (polled_world ''r8_key'' ?u 5 ?w1) =
      (Inr finished_empty,
       (polled_world ''r8_key'' ?u 5 ?w1)
         \<lparr>fetch_log := fetch_log (polled_world ''r8_key'' ?u 5 ?w1) @ [poll_request ''r8_key'' ?u]\<rparr>)"
    by (rule poll_step_succeeded)
       (simp_all add: answers_def five_then_empty_def ok_json_def polled_world_def ready_world_def
          finished_empty_def own_prop_def)
  have after: "after_polling five_then_empty replicate_options finished_empty w =
      (Inl (JsError ''No image URL returned from Replicate''), w)" for w
    by (simp add: after_polling_def finished_empty_def own_prop_def truthy_def opt_index0_def
        first_element_def nullish_def Let_def io_throw_def)
  show ?thesis
    by (simp add: run five sixth after catch_to_failure_def io_simps)
qed

section \<open>The enrichment step of the GPT-4o adapter\<close>







section \<open>The custom adapter\<close>









section \<open>Properties of the composed refinement prompt\<close>



















end
